theory Spec2Isabelle
  imports Main "HOL-Library.AList"
begin

section \<open>Python values\<close>

text \<open>
  The facade of \<^verbatim>\<open>BE/services/firebase_service.py\<close> moves Python dictionaries
  between its callers and the platform client. A dictionary is an association list with
  string keys (insertion ordered, as in Python); \<open>fs_SERVER_TIMESTAMP\<close> is the sentinel
  \<^verbatim>\<open>firestore.SERVER_TIMESTAMP\<close>, and \<open>PTimestamp t\<close> a time assigned by the server.
\<close>

datatype pyval =
    PNone
  | PBool bool
  | PInt int
  | PStr string
  | PList "pyval list"
  | PDict "(string \<times> pyval) list"
  | PTimestamp nat
  | fs_SERVER_TIMESTAMP

type_synonym pydict = "(string \<times> pyval) list"

datatype py_error =
    TypeError
  | AttributeError
  | KeyError
  | IndexError
  | FileNotFoundError
  | BackendError

text \<open>\<^verbatim>\<open>d.get(k, default)\<close>; \<^verbatim>\<open>d.get(k)\<close> is \<open>py_get d k PNone\<close>.\<close>

definition py_get :: "pydict \<Rightarrow> string \<Rightarrow> pyval \<Rightarrow> pyval" where
  "py_get d k dflt = (case map_of d k of None \<Rightarrow> dflt | Some v \<Rightarrow> v)"

text \<open>Truth value of an object in a condition (\<^verbatim>\<open>if x\<close>).\<close>

fun truthy :: "pyval \<Rightarrow> bool" where
  "truthy PNone = False"
| "truthy (PBool b) = b"
| "truthy (PInt i) = (i \<noteq> 0)"
| "truthy (PStr s) = (s \<noteq> [])"
| "truthy (PList xs) = (xs \<noteq> [])"
| "truthy (PDict d) = (d \<noteq> [])"
| "truthy (PTimestamp t) = True"
| "truthy fs_SERVER_TIMESTAMP = True"

text \<open>\<^verbatim>\<open>len(x)\<close>: defined on strings, lists and dictionaries, a TypeError otherwise.\<close>

fun py_len :: "pyval \<Rightarrow> py_error + nat" where
  "py_len (PStr s) = Inr (length s)"
| "py_len (PList xs) = Inr (length xs)"
| "py_len (PDict d) = Inr (length d)"
| "py_len v = Inl TypeError"

text \<open>
  The sequence a \<^verbatim>\<open>for\<close> loop walks: the elements of a list, the characters of a
  string, the keys of a dictionary; a TypeError on anything else.
\<close>

fun py_iter :: "pyval \<Rightarrow> py_error + pyval list" where
  "py_iter (PList xs) = Inr xs"
| "py_iter (PStr s) = Inr (map (\<lambda>c. PStr [c]) s)"
| "py_iter (PDict d) = Inr (map (\<lambda>(k, v). PStr k) d)"
| "py_iter v = Inl TypeError"

text \<open>\<^verbatim>\<open>x[0]\<close>; the keys of a dictionary are strings, so \<open>0\<close> is never one of them.\<close>

fun py_first :: "pyval \<Rightarrow> py_error + pyval" where
  "py_first (PList []) = Inl IndexError"
| "py_first (PList (x # xs)) = Inr x"
| "py_first (PStr []) = Inl IndexError"
| "py_first (PStr (c # cs)) = Inr (PStr [c])"
| "py_first (PDict d) = Inl KeyError"
| "py_first v = Inl TypeError"

text \<open>\<^verbatim>\<open>x.get(k)\<close> on an arbitrary object: only a dictionary has the method.\<close>

fun py_get_attr :: "pyval \<Rightarrow> string \<Rightarrow> py_error + pyval" where
  "py_get_attr (PDict d) k = Inr (py_get d k PNone)"
| "py_get_attr v k = Inl AttributeError"

text \<open>
  \<^verbatim>\<open>try: ... except Exception as e: logger.error(...); return sentinel\<close>: whatever the
  body raised, the caller receives the sentinel. The state reached when the exception was
  raised is kept.
\<close>

definition except_return :: "'a \<Rightarrow> (py_error + 'a) \<times> 's \<Rightarrow> (py_error + 'a) \<times> 's" where
  "except_return sentinel r =
     (case r of (Inl e, s) \<Rightarrow> (Inr sentinel, s) | (Inr v, s) \<Rightarrow> (Inr v, s))"

section \<open>The platform behind the facade\<close>

text \<open>
  The platform client (\<^verbatim>\<open>firebase_admin\<close>) and \<^verbatim>\<open>uuid\<close> are libraries outside the
  repository. Their state is the record \<open>backend\<close>: the \<^verbatim>\<open>presentations\<close> collection,
  the storage bucket, the local files an upload reads, the identity platform's tokens
  and users, the server clock, the identifiers generated so far, and two fields that
  make the environment explicit: \<open>faults\<close> schedules which of the coming remote calls
  raise (one entry per call, \<open>True\<close> raises, an exhausted schedule raises nothing), and
  \<open>calls\<close> records every remote call attempted.
\<close>

datatype call =
    DocGet string
  | DocSet string
  | DocUpdate string
  | DocDelete string
  | QueryStream string nat
  | BlobUploadFile string
  | BlobUploadBytes string
  | BlobMakePublic string
  | BlobDelete pyval
  | VerifyIdToken string
  | AuthGetUser string
  | AuthCreateCustomToken string

record blob =
  content :: string
  content_type :: string
  public :: bool

record user_record =
  uid :: string
  email :: pyval
  display_name :: pyval
  photo_url :: pyval
  email_verified :: bool

record backend =
  docs :: "(string \<times> pydict) list"
  bucket :: "(string \<times> blob) list"
  local_files :: "(string \<times> string) list"
  id_tokens :: "(string \<times> pydict) list"
  users :: "(string \<times> user_record) list"
  clock :: nat
  issued :: "string list"
  faults :: "bool list"
  calls :: "call list"

text \<open>
  One remote call: it is recorded, the next entry of the schedule is consumed, and the
  flag returned says whether the call goes through.
\<close>

definition remote :: "call \<Rightarrow> backend \<Rightarrow> bool \<times> backend" where
  "remote c s =
     (case faults s of
        [] \<Rightarrow> (True, s\<lparr>calls := calls s @ [c]\<rparr>)
      | f # fs \<Rightarrow> (\<not> f, s\<lparr>faults := fs, calls := calls s @ [c]\<rparr>))"

text \<open>
  Modelled from the spec: the document-collection protocol of the platform client
  (\<^verbatim>\<open>firestore.client()\<close>: document get, set, update, delete, and a query with
  filter, order and limit), which is not under src/. A write replaces the
  server-timestamp sentinel in a top-level field by the server's clock ("server-assigned
  timestamps"); an update overwrites the named fields and keeps the others ("shallow
  field overwrite, not deep merge"; a Python dictionary holds each key once, so the
  order of the overwrites does not matter); the clock moves on after every write.
\<close>

fun stamp :: "nat \<Rightarrow> pyval \<Rightarrow> pyval" where
  "stamp t fs_SERVER_TIMESTAMP = PTimestamp t"
| "stamp t v = v"

definition stamp_fields :: "nat \<Rightarrow> pydict \<Rightarrow> pydict" where
  "stamp_fields t d = map (\<lambda>(k, v). (k, stamp t v)) d"

definition merge_fields :: "pydict \<Rightarrow> pydict \<Rightarrow> pydict" where
  "merge_fields stored upd = foldr (\<lambda>(k, v) acc. AList.update k v acc) upd stored"

definition document_get :: "backend \<Rightarrow> string \<Rightarrow> (py_error + pydict option) \<times> backend" where
  "document_get s i =
     (case remote (DocGet i) s of
        (ok, s1) \<Rightarrow> if ok then (Inr (map_of (docs s1) i), s1) else (Inl BackendError, s1))"

definition document_set :: "backend \<Rightarrow> string \<Rightarrow> pydict \<Rightarrow> (py_error + unit) \<times> backend" where
  "document_set s i d =
     (case remote (DocSet i) s of
        (ok, s1) \<Rightarrow>
          if ok
          then (Inr (), s1\<lparr>docs := AList.update i (stamp_fields (clock s1) d) (docs s1),
                           clock := Suc (clock s1)\<rparr>)
          else (Inl BackendError, s1))"

definition document_update :: "backend \<Rightarrow> string \<Rightarrow> pydict \<Rightarrow> (py_error + unit) \<times> backend" where
  "document_update s i upd =
     (case remote (DocUpdate i) s of
        (ok, s1) \<Rightarrow>
          if ok
          then (case map_of (docs s1) i of
                  None \<Rightarrow> (Inl BackendError, s1)
                | Some stored \<Rightarrow>
                    (Inr (), s1\<lparr>docs := AList.update i
                                           (merge_fields stored (stamp_fields (clock s1) upd))
                                           (docs s1),
                                 clock := Suc (clock s1)\<rparr>))
          else (Inl BackendError, s1))"

definition document_delete :: "backend \<Rightarrow> string \<Rightarrow> (py_error + unit) \<times> backend" where
  "document_delete s i =
     (case remote (DocDelete i) s of
        (ok, s1) \<Rightarrow>
          if ok then (Inr (), s1\<lparr>docs := AList.delete i (docs s1)\<rparr>)
          else (Inl BackendError, s1))"

section \<open>Presentations: lookup\<close>

text \<open>
  \<^verbatim>\<open>get_presentation(self, ppt_id, user_id=None)\<close>. The condition
  \<^verbatim>\<open>user_id and data.get('user_id') != user_id\<close> tests the truth value of
  \<^verbatim>\<open>user_id\<close> first: \<^verbatim>\<open>None\<close> and the empty string are both false.
\<close>

definition get_presentation_body ::
  "backend \<Rightarrow> string \<Rightarrow> string option \<Rightarrow> (py_error + pydict option) \<times> backend" where
  "get_presentation_body s ppt_id user_id =
     (case document_get s ppt_id of
        (Inl e, s1) \<Rightarrow> (Inl e, s1)
      | (Inr None, s1) \<Rightarrow> (Inr None, s1)
      | (Inr (Some data), s1) \<Rightarrow>
          (case user_id of
             None \<Rightarrow> (Inr (Some data), s1)
           | Some u \<Rightarrow>
               if u \<noteq> [] \<and> py_get data ''user_id'' PNone \<noteq> PStr u
               then (Inr None, s1)
               else (Inr (Some data), s1)))"

definition get_presentation ::
  "backend \<Rightarrow> string \<Rightarrow> string option \<Rightarrow> (py_error + pydict option) \<times> backend" where
  "get_presentation s ppt_id user_id = except_return None (get_presentation_body s ppt_id user_id)"

section \<open>Presentations: creation\<close>

text \<open>
  Modelled from the spec: \<^verbatim>\<open>uuid.uuid4()\<close> of the Python standard library, which is
  not under src/ ("generates a fresh unique id"). The generator remembers what it
  issued and returns an identifier longer than every earlier one.
\<close>

definition fresh_id :: "string list \<Rightarrow> string" where
  "fresh_id used = replicate (Suc (foldr (\<lambda>x n. max (length x) n) used 0)) CHR ''u''"

definition uuid4 :: "backend \<Rightarrow> string \<times> backend" where
  "uuid4 s = (fresh_id (issued s), s\<lparr>issued := fresh_id (issued s) # issued s\<rparr>)"

text \<open>
  \<^verbatim>\<open>create_presentation(self, user_id, presentation_data)\<close>. The dictionary literal is
  evaluated field by field; \<^verbatim>\<open>len\<close> is the only step of it that can raise. The
  handler logs and re-raises, so an error of the body is the error of the call.
\<close>

definition doc_data_of :: "string \<Rightarrow> string \<Rightarrow> pydict \<Rightarrow> nat \<Rightarrow> pydict" where
  "doc_data_of ppt_id user_id presentation_data n =
     [(''ppt_id'', PStr ppt_id),
      (''user_id'', PStr user_id),
      (''topic'', py_get presentation_data ''topic'' (PStr [])),
      (''theme'', py_get presentation_data ''theme'' (PStr ''modern'')),
      (''slides'', py_get presentation_data ''slides'' (PList [])),
      (''slide_count'', PInt (int n)),
      (''created_at'', fs_SERVER_TIMESTAMP),
      (''updated_at'', fs_SERVER_TIMESTAMP),
      (''content_sources'', py_get presentation_data ''content_sources'' (PList [])),
      (''brand_colors'', py_get presentation_data ''brand_colors'' PNone)]"

definition create_presentation ::
  "backend \<Rightarrow> string \<Rightarrow> pydict \<Rightarrow> (py_error + string) \<times> backend" where
  "create_presentation s user_id presentation_data =
     (case uuid4 s of
        (ppt_id, s1) \<Rightarrow>
          (case py_len (py_get presentation_data ''slides'' (PList [])) of
             Inl e \<Rightarrow> (Inl e, s1)
           | Inr n \<Rightarrow>
               (case document_set s1 ppt_id (doc_data_of ppt_id user_id presentation_data n) of
                  (Inl e, s2) \<Rightarrow> (Inl e, s2)
                | (Inr u, s2) \<Rightarrow> (Inr ppt_id, s2))))"

section \<open>Presentations: update\<close>

text \<open>
  \<^verbatim>\<open>update_presentation(self, ppt_id, user_id, updates)\<close>. The assignment
  \<^verbatim>\<open>updates['updated_at'] = firestore.SERVER_TIMESTAMP\<close> writes into the dictionary
  object the caller passed, so the dictionary is part of the state the call transforms:
  the second component of the result is the caller's dictionary after the call.
\<close>

definition update_presentation_body ::
  "backend \<Rightarrow> string \<Rightarrow> string \<Rightarrow> pydict \<Rightarrow> (py_error + bool) \<times> (pydict \<times> backend)" where
  "update_presentation_body s ppt_id user_id updates =
     (case document_get s ppt_id of
        (Inl e, s1) \<Rightarrow> (Inl e, (updates, s1))
      | (Inr None, s1) \<Rightarrow> (Inr False, (updates, s1))
      | (Inr (Some data), s1) \<Rightarrow>
          if py_get data ''user_id'' PNone \<noteq> PStr user_id
          then (Inr False, (updates, s1))
          else (case document_update s1 ppt_id
                       (AList.update ''updated_at'' fs_SERVER_TIMESTAMP updates) of
                  (Inl e, s2) \<Rightarrow>
                    (Inl e, (AList.update ''updated_at'' fs_SERVER_TIMESTAMP updates, s2))
                | (Inr u, s2) \<Rightarrow>
                    (Inr True, (AList.update ''updated_at'' fs_SERVER_TIMESTAMP updates, s2))))"

definition update_presentation ::
  "backend \<Rightarrow> string \<Rightarrow> string \<Rightarrow> pydict \<Rightarrow> (py_error + bool) \<times> (pydict \<times> backend)" where
  "update_presentation s ppt_id user_id updates =
     except_return False (update_presentation_body s ppt_id user_id updates)"

section \<open>Asset storage\<close>

text \<open>
  Modelled from the spec: the object-storage protocol of the platform client
  (\<^verbatim>\<open>storage.bucket(...)\<close>: upload, make public, delete), which is not under src/.
  Deleting fails when the object does not exist or the path is not a string; an upload
  from a file fails before any request when the local file is missing.
\<close>

definition blob_delete :: "backend \<Rightarrow> pyval \<Rightarrow> (py_error + unit) \<times> backend" where
  "blob_delete s p =
     (case remote (BlobDelete p) s of
        (ok, s1) \<Rightarrow>
          if ok
          then (case p of
                  PStr path \<Rightarrow>
                    (case map_of (bucket s1) path of
                       None \<Rightarrow> (Inl BackendError, s1)
                     | Some b \<Rightarrow> (Inr (), s1\<lparr>bucket := AList.delete path (bucket s1)\<rparr>))
                | _ \<Rightarrow> (Inl TypeError, s1))
          else (Inl BackendError, s1))"

definition blob_upload_from_string ::
  "backend \<Rightarrow> string \<Rightarrow> string \<Rightarrow> string \<Rightarrow> (py_error + unit) \<times> backend" where
  "blob_upload_from_string s path bytes ctype =
     (case remote (BlobUploadBytes path) s of
        (ok, s1) \<Rightarrow>
          if ok
          then (Inr (), s1\<lparr>bucket := AList.update path
                                        \<lparr>content = bytes, content_type = ctype, public = False\<rparr>
                                        (bucket s1)\<rparr>)
          else (Inl BackendError, s1))"

definition blob_upload_from_filename ::
  "backend \<Rightarrow> string \<Rightarrow> string \<Rightarrow> (py_error + unit) \<times> backend" where
  "blob_upload_from_filename s path image_path =
     (case map_of (local_files s) image_path of
        None \<Rightarrow> (Inl FileNotFoundError, s)
      | Some bytes \<Rightarrow>
          (case remote (BlobUploadFile path) s of
             (ok, s1) \<Rightarrow>
               if ok
               then (Inr (), s1\<lparr>bucket := AList.update path
                                             \<lparr>content = bytes,
                                              content_type = ''application/octet-stream'',
                                              public = False\<rparr>
                                             (bucket s1)\<rparr>)
               else (Inl BackendError, s1)))"

definition blob_make_public :: "backend \<Rightarrow> string \<Rightarrow> (py_error + unit) \<times> backend" where
  "blob_make_public s path =
     (case remote (BlobMakePublic path) s of
        (ok, s1) \<Rightarrow>
          if ok
          then (case map_of (bucket s1) path of
                  None \<Rightarrow> (Inl BackendError, s1)
                | Some b \<Rightarrow> (Inr (), s1\<lparr>bucket := AList.update path (b\<lparr>public := True\<rparr>) (bucket s1)\<rparr>))
          else (Inl BackendError, s1))"

definition public_url :: "string \<Rightarrow> string" where
  "public_url path = ''https://storage.googleapis.com/fy-project-518d9.appspot.com/'' @ path"

text \<open>\<^verbatim>\<open>upload_image(self, image_path, destination_path)\<close>\<close>

definition upload_image_body ::
  "backend \<Rightarrow> string \<Rightarrow> string \<Rightarrow> (py_error + string option) \<times> backend" where
  "upload_image_body s image_path destination_path =
     (case blob_upload_from_filename s destination_path image_path of
        (Inl e, s1) \<Rightarrow> (Inl e, s1)
      | (Inr u, s1) \<Rightarrow>
          (case blob_make_public s1 destination_path of
             (Inl e, s2) \<Rightarrow> (Inl e, s2)
           | (Inr u, s2) \<Rightarrow> (Inr (Some (public_url destination_path)), s2)))"

definition upload_image ::
  "backend \<Rightarrow> string \<Rightarrow> string \<Rightarrow> (py_error + string option) \<times> backend" where
  "upload_image s image_path destination_path =
     except_return None (upload_image_body s image_path destination_path)"

text \<open>\<^verbatim>\<open>upload_image_from_bytes(self, image_bytes, destination_path, content_type)\<close>\<close>

definition upload_image_from_bytes_body ::
  "backend \<Rightarrow> string \<Rightarrow> string \<Rightarrow> string \<Rightarrow> (py_error + string option) \<times> backend" where
  "upload_image_from_bytes_body s image_bytes destination_path ctype =
     (case blob_upload_from_string s destination_path image_bytes ctype of
        (Inl e, s1) \<Rightarrow> (Inl e, s1)
      | (Inr u, s1) \<Rightarrow>
          (case blob_make_public s1 destination_path of
             (Inl e, s2) \<Rightarrow> (Inl e, s2)
           | (Inr u, s2) \<Rightarrow> (Inr (Some (public_url destination_path)), s2)))"

definition upload_image_from_bytes ::
  "backend \<Rightarrow> string \<Rightarrow> string \<Rightarrow> string \<Rightarrow> (py_error + string option) \<times> backend" where
  "upload_image_from_bytes s image_bytes destination_path ctype =
     except_return None (upload_image_from_bytes_body s image_bytes destination_path ctype)"

text \<open>
  \<^verbatim>\<open>delete_image(self, storage_path)\<close>. The annotation says \<^verbatim>\<open>str\<close>, but
  \<^verbatim>\<open>delete_presentation\<close> passes whatever a slide stores, so the argument is a value.
\<close>

definition delete_image_body :: "backend \<Rightarrow> pyval \<Rightarrow> (py_error + bool) \<times> backend" where
  "delete_image_body s storage_path =
     (case blob_delete s storage_path of
        (Inl e, s1) \<Rightarrow> (Inl e, s1)
      | (Inr u, s1) \<Rightarrow> (Inr True, s1))"

definition delete_image :: "backend \<Rightarrow> pyval \<Rightarrow> (py_error + bool) \<times> backend" where
  "delete_image s storage_path = except_return False (delete_image_body s storage_path)"

section \<open>Presentations: deletion\<close>

text \<open>
  The loop \<^verbatim>\<open>for slide in data.get('slides', [])\<close> of \<^verbatim>\<open>delete_presentation\<close>:
  \<^verbatim>\<open>slide.get\<close> raises on a slide that is not a dictionary, the result of
  \<^verbatim>\<open>delete_image\<close> is dropped.
\<close>

fun delete_slide_images :: "backend \<Rightarrow> pyval list \<Rightarrow> (py_error + unit) \<times> backend" where
  "delete_slide_images s [] = (Inr (), s)"
| "delete_slide_images s (slide # rest) =
     (case py_get_attr slide ''image_storage_path'' of
        Inl e \<Rightarrow> (Inl e, s)
      | Inr p \<Rightarrow>
          if truthy p then delete_slide_images (snd (delete_image s p)) rest
          else delete_slide_images s rest)"

definition delete_presentation_body ::
  "backend \<Rightarrow> string \<Rightarrow> string \<Rightarrow> (py_error + bool) \<times> backend" where
  "delete_presentation_body s ppt_id user_id =
     (case document_get s ppt_id of
        (Inl e, s1) \<Rightarrow> (Inl e, s1)
      | (Inr None, s1) \<Rightarrow> (Inr False, s1)
      | (Inr (Some data), s1) \<Rightarrow>
          if py_get data ''user_id'' PNone \<noteq> PStr user_id
          then (Inr False, s1)
          else (case py_iter (py_get data ''slides'' (PList [])) of
                  Inl e \<Rightarrow> (Inl e, s1)
                | Inr slides \<Rightarrow>
                    (case delete_slide_images s1 slides of
                       (Inl e, s2) \<Rightarrow> (Inl e, s2)
                     | (Inr u, s2) \<Rightarrow>
                         (case document_delete s2 ppt_id of
                            (Inl e, s3) \<Rightarrow> (Inl e, s3)
                          | (Inr u, s3) \<Rightarrow> (Inr True, s3)))))"

definition delete_presentation ::
  "backend \<Rightarrow> string \<Rightarrow> string \<Rightarrow> (py_error + bool) \<times> backend" where
  "delete_presentation s ppt_id user_id =
     except_return False (delete_presentation_body s ppt_id user_id)"

section \<open>Presentations: listing\<close>

text \<open>
  Modelled from the spec: the query of the platform client
  (\<^verbatim>\<open>where('user_id', '==', user_id).order_by('created_at', DESCENDING).limit(limit)\<close>),
  which is not under src/: "queries records where owner_id matches, ordered by
  created_at descending, capped at limit". Timestamps are ordered by time; the model
  ranks every other value below them. The limit is a count.
\<close>

fun time_rank :: "pyval \<Rightarrow> nat" where
  "time_rank (PTimestamp t) = Suc t"
| "time_rank v = 0"

definition created_rank :: "pydict \<Rightarrow> nat" where
  "created_rank d = time_rank (py_get d ''created_at'' PNone)"

definition query_stream :: "backend \<Rightarrow> string \<Rightarrow> nat \<Rightarrow> (py_error + pydict list) \<times> backend" where
  "query_stream s user_id limit =
     (case remote (QueryStream user_id limit) s of
        (ok, s1) \<Rightarrow>
          if ok
          then (Inr (take limit (rev (sort_key created_rank
                  (filter (\<lambda>d. py_get d ''user_id'' PNone = PStr user_id) (map snd (docs s1)))))),
                s1)
          else (Inl BackendError, s1))"

text \<open>
  \<^verbatim>\<open>data.get('slides', [{}])[0].get('image_url') if data.get('slides') else None\<close>
\<close>

definition thumbnail :: "pydict \<Rightarrow> py_error + pyval" where
  "thumbnail data =
     (if truthy (py_get data ''slides'' PNone)
      then (case py_first (py_get data ''slides'' (PList [PDict []])) of
              Inl e \<Rightarrow> Inl e
            | Inr slide \<Rightarrow> py_get_attr slide ''image_url'')
      else Inr PNone)"

definition summary :: "pydict \<Rightarrow> py_error + pydict" where
  "summary data =
     (case thumbnail data of
        Inl e \<Rightarrow> Inl e
      | Inr th \<Rightarrow>
          Inr [(''ppt_id'', py_get data ''ppt_id'' PNone),
               (''topic'', py_get data ''topic'' PNone),
               (''theme'', py_get data ''theme'' PNone),
               (''slide_count'', py_get data ''slide_count'' (PInt 0)),
               (''created_at'', py_get data ''created_at'' PNone),
               (''updated_at'', py_get data ''updated_at'' PNone),
               (''thumbnail'', th)])"

text \<open>The loop \<^verbatim>\<open>for doc in docs: presentations.append({...})\<close>.\<close>

fun summaries :: "pydict list \<Rightarrow> py_error + pydict list" where
  "summaries [] = Inr []"
| "summaries (data # rest) =
     (case summary data of
        Inl e \<Rightarrow> Inl e
      | Inr x \<Rightarrow> (case summaries rest of Inl e \<Rightarrow> Inl e | Inr xs \<Rightarrow> Inr (x # xs)))"

definition get_user_presentations_body ::
  "backend \<Rightarrow> string \<Rightarrow> nat \<Rightarrow> (py_error + pydict list) \<times> backend" where
  "get_user_presentations_body s user_id limit =
     (case query_stream s user_id limit of
        (Inl e, s1) \<Rightarrow> (Inl e, s1)
      | (Inr ds, s1) \<Rightarrow> (summaries ds, s1))"

definition get_user_presentations ::
  "backend \<Rightarrow> string \<Rightarrow> nat \<Rightarrow> (py_error + pydict list) \<times> backend" where
  "get_user_presentations s user_id limit =
     except_return [] (get_user_presentations_body s user_id limit)"

section \<open>Authentication\<close>

text \<open>
  Modelled from the spec: the identity operations of the platform client
  (\<^verbatim>\<open>auth.verify_id_token\<close>, \<^verbatim>\<open>auth.get_user\<close>, \<^verbatim>\<open>auth.create_custom_token\<close>), which
  are not under src/. A token the platform does not know and a user it does not have
  make the call raise.
\<close>

definition auth_verify_id_token :: "backend \<Rightarrow> string \<Rightarrow> (py_error + pydict) \<times> backend" where
  "auth_verify_id_token s id_token =
     (case remote (VerifyIdToken id_token) s of
        (ok, s1) \<Rightarrow>
          if ok
          then (case map_of (id_tokens s1) id_token of
                  None \<Rightarrow> (Inl BackendError, s1)
                | Some decoded \<Rightarrow> (Inr decoded, s1))
          else (Inl BackendError, s1))"

definition auth_get_user :: "backend \<Rightarrow> string \<Rightarrow> (py_error + user_record) \<times> backend" where
  "auth_get_user s u =
     (case remote (AuthGetUser u) s of
        (ok, s1) \<Rightarrow>
          if ok
          then (case map_of (users s1) u of
                  None \<Rightarrow> (Inl BackendError, s1)
                | Some r \<Rightarrow> (Inr r, s1))
          else (Inl BackendError, s1))"

definition auth_create_custom_token :: "backend \<Rightarrow> string \<Rightarrow> (py_error + string) \<times> backend" where
  "auth_create_custom_token s u =
     (case remote (AuthCreateCustomToken u) s of
        (ok, s1) \<Rightarrow> if ok then (Inr (''custom-token:'' @ u), s1) else (Inl BackendError, s1))"

text \<open>\<^verbatim>\<open>verify_token(self, id_token)\<close>\<close>

definition verify_token_body :: "backend \<Rightarrow> string \<Rightarrow> (py_error + pydict option) \<times> backend" where
  "verify_token_body s id_token =
     (case auth_verify_id_token s id_token of
        (Inl e, s1) \<Rightarrow> (Inl e, s1)
      | (Inr decoded_token, s1) \<Rightarrow> (Inr (Some decoded_token), s1))"

definition verify_token :: "backend \<Rightarrow> string \<Rightarrow> (py_error + pydict option) \<times> backend" where
  "verify_token s id_token = except_return None (verify_token_body s id_token)"

text \<open>\<^verbatim>\<open>get_user(self, uid)\<close>\<close>

definition get_user_body :: "backend \<Rightarrow> string \<Rightarrow> (py_error + pydict option) \<times> backend" where
  "get_user_body s u =
     (case auth_get_user s u of
        (Inl e, s1) \<Rightarrow> (Inl e, s1)
      | (Inr user, s1) \<Rightarrow>
          (Inr (Some [(''uid'', PStr (uid user)),
                      (''email'', email user),
                      (''display_name'', display_name user),
                      (''photo_url'', photo_url user),
                      (''email_verified'', PBool (email_verified user))]), s1))"

definition get_user :: "backend \<Rightarrow> string \<Rightarrow> (py_error + pydict option) \<times> backend" where
  "get_user s u = except_return None (get_user_body s u)"

text \<open>\<^verbatim>\<open>create_custom_token(self, uid)\<close>\<close>

definition create_custom_token_body ::
  "backend \<Rightarrow> string \<Rightarrow> (py_error + string option) \<times> backend" where
  "create_custom_token_body s u =
     (case auth_create_custom_token s u of
        (Inl e, s1) \<Rightarrow> (Inl e, s1)
      | (Inr tok, s1) \<Rightarrow> (Inr (Some tok), s1))"

definition create_custom_token ::
  "backend \<Rightarrow> string \<Rightarrow> (py_error + string option) \<times> backend" where
  "create_custom_token s u = except_return None (create_custom_token_body s u)"

section \<open>Vocabulary of the properties\<close>

text \<open>The \<open>n\<close>-th of the coming remote calls goes through.\<close>

definition call_ok :: "bool list \<Rightarrow> nat \<Rightarrow> bool" where
  "call_ok fs n = (\<not> (n < length fs \<and> fs ! n))"

text \<open>The collection holds a record under the id whose \<^verbatim>\<open>user_id\<close> is the given one.\<close>

definition owned_by :: "backend \<Rightarrow> string \<Rightarrow> string \<Rightarrow> bool" where
  "owned_by s ppt_id user_id =
     (case map_of (docs s) ppt_id of
        None \<Rightarrow> False
      | Some data \<Rightarrow> py_get data ''user_id'' PNone = PStr user_id)"

text \<open>
  The storage paths \<^verbatim>\<open>delete_presentation\<close> hands to \<^verbatim>\<open>delete_image\<close>: the
  \<^verbatim>\<open>image_storage_path\<close> of every slide where it is true in a condition (present,
  not \<^verbatim>\<open>None\<close>, not empty), in the order of the slides.
\<close>

fun is_dict :: "pyval \<Rightarrow> bool" where
  "is_dict (PDict d) = True"
| "is_dict v = False"

fun slide_path :: "pyval \<Rightarrow> pyval" where
  "slide_path (PDict d) = py_get d ''image_storage_path'' PNone"
| "slide_path v = PNone"

definition image_paths :: "pyval list \<Rightarrow> pyval list" where
  "image_paths slides = filter truthy (map slide_path slides)"

text \<open>
  What a summary's thumbnail is when the listing returns it: the \<^verbatim>\<open>image_url\<close> of the
  first slide, \<^verbatim>\<open>None\<close> when the record has no slide or the slide has no such key.
\<close>

fun first_image_url :: "pyval \<Rightarrow> pyval" where
  "first_image_url (PList (PDict slide # rest)) = py_get slide ''image_url'' PNone"
| "first_image_url v = PNone"

definition summary_view :: "pydict \<Rightarrow> pydict" where
  "summary_view data =
     [(''ppt_id'', py_get data ''ppt_id'' PNone),
      (''topic'', py_get data ''topic'' PNone),
      (''theme'', py_get data ''theme'' PNone),
      (''slide_count'', py_get data ''slide_count'' (PInt 0)),
      (''created_at'', py_get data ''created_at'' PNone),
      (''updated_at'', py_get data ''updated_at'' PNone),
      (''thumbnail'', first_image_url (py_get data ''slides'' PNone))]"

text \<open>
  An operation keeps its errors to itself: its result is never an error, and it is the
  sentinel whenever its body raised.
\<close>

definition swallows :: "'a \<Rightarrow> (py_error + 'a) \<times> 's \<Rightarrow> (py_error + 'a) \<times> 's \<Rightarrow> bool" where
  "swallows sentinel body res =
     (\<not> isl (fst res) \<and> (isl (fst body) \<longrightarrow> fst res = Inr sentinel))"

text \<open>
  Every \<^verbatim>\<open>updated_at\<close> in the collection was assigned by the server before now. The
  facade never writes the field itself: it sends the sentinel, so the property holds of
  the empty collection and every operation keeps it.
\<close>

definition stamps_in_past :: "backend \<Rightarrow> bool" where
  "stamps_in_past s =
     list_all (\<lambda>(i, d). time_rank (py_get d ''updated_at'' PNone) \<le> clock s) (docs s)"

text \<open>
  The states the facade can be in: it starts on an empty collection, the environment
  schedules faults at will, and every operation of the facade leads from one state to
  the next.
\<close>

inductive reachable :: "backend \<Rightarrow> bool" where
  initial: "docs s = [] \<Longrightarrow> reachable s"
| scheduled: "reachable s \<Longrightarrow> reachable (s\<lparr>faults := fs\<rparr>)"
| verified: "reachable s \<Longrightarrow> reachable (snd (verify_token s id_token))"
| looked_up: "reachable s \<Longrightarrow> reachable (snd (get_user s u))"
| minted: "reachable s \<Longrightarrow> reachable (snd (create_custom_token s u))"
| uploaded: "reachable s \<Longrightarrow> reachable (snd (upload_image s image_path destination_path))"
| uploaded_bytes:
    "reachable s \<Longrightarrow>
       reachable (snd (upload_image_from_bytes s image_bytes destination_path ctype))"
| image_deleted: "reachable s \<Longrightarrow> reachable (snd (delete_image s storage_path))"
| created: "reachable s \<Longrightarrow> reachable (snd (create_presentation s user_id presentation_data))"
| fetched: "reachable s \<Longrightarrow> reachable (snd (get_presentation s ppt_id requester))"
| updated:
    "reachable s \<Longrightarrow> reachable (snd (snd (update_presentation s ppt_id user_id updates)))"
| deleted: "reachable s \<Longrightarrow> reachable (snd (delete_presentation s ppt_id user_id))"
| listed: "reachable s \<Longrightarrow> reachable (snd (get_user_presentations s user_id limit))"

subsection \<open>Concrete states used as test inputs\<close>

definition backend0 :: backend where
  "backend0 = \<lparr>docs = [], bucket = [], local_files = [], id_tokens = [], users = [],
               clock = 0, issued = [], faults = [], calls = []\<rparr>"

definition deck :: pydict where
  "deck = [(''ppt_id'', PStr ''p1''),
           (''user_id'', PStr ''alice''),
           (''topic'', PStr ''whales''),
           (''theme'', PStr ''modern''),
           (''slides'', PList [PDict [(''title'', PStr ''one''),
                                     (''image_url'', PStr ''http://img/1''),
                                     (''image_storage_path'', PStr ''users/alice/1.jpg'')],
                              PDict [(''title'', PStr ''two'')]]),
           (''slide_count'', PInt 2),
           (''created_at'', PTimestamp 3),
           (''updated_at'', PTimestamp 4),
           (''content_sources'', PList []),
           (''brand_colors'', PNone)]"

definition backend1 :: backend where
  "backend1 = backend0\<lparr>docs := [(''p1'', deck)],
                        bucket := [(''users/alice/1.jpg'',
                                    \<lparr>content = ''jpeg'', content_type = ''image/jpeg'', public = True\<rparr>)],
                        clock := 5\<rparr>"

definition deck2 :: pydict where
  "deck2 = [(''ppt_id'', PStr ''p2''),
            (''user_id'', PStr ''alice''),
            (''topic'', PStr ''tides''),
            (''theme'', PStr ''dark''),
            (''slides'', PList []),
            (''slide_count'', PInt 0),
            (''created_at'', PTimestamp 7),
            (''updated_at'', PTimestamp 7),
            (''content_sources'', PList []),
            (''brand_colors'', PNone)]"

definition deck3 :: pydict where
  "deck3 = [(''ppt_id'', PStr ''p3''),
            (''user_id'', PStr ''bob''),
            (''topic'', PStr ''kelp''),
            (''theme'', PStr ''modern''),
            (''slides'', PList []),
            (''slide_count'', PInt 0),
            (''created_at'', PTimestamp 8),
            (''updated_at'', PTimestamp 8),
            (''content_sources'', PList []),
            (''brand_colors'', PNone)]"

definition backend2 :: backend where
  "backend2 = backend1\<lparr>docs := [(''p1'', deck), (''p2'', deck2), (''p3'', deck3)], clock := 9\<rparr>"

section \<open>The environment: remote calls and the fault schedule\<close>

lemma remote_fst: "fst (remote c s) = call_ok (faults s) 0"
  by (cases "faults s") (simp_all add: remote_def call_ok_def)

lemma remote_snd:
  "snd (remote c s) = s\<lparr>faults := tl (faults s), calls := calls s @ [c]\<rparr>"
  by (cases "faults s") (simp_all add: remote_def)

lemma remote_eq:
  "remote c s = (call_ok (faults s) 0, s\<lparr>faults := tl (faults s), calls := calls s @ [c]\<rparr>)"
  by (simp add: prod_eq_iff remote_fst remote_snd)

lemma call_ok_drop: "call_ok (drop n fs) m = call_ok fs (n + m)"
  by (auto simp: call_ok_def)

lemma call_ok_tl: "call_ok (tl fs) m = call_ok fs (Suc m)"
  by (cases fs) (auto simp: call_ok_def)

lemma except_return_snd: "snd (except_return x r) = snd r"
  by (cases r) (auto simp: except_return_def split: sum.splits)

lemma except_return_fst:
  "fst (except_return x r) = (case fst r of Inl e \<Rightarrow> Inr x | Inr v \<Rightarrow> Inr v)"
  by (cases r) (auto simp: except_return_def split: sum.splits)

lemma swallows_except_return: "swallows x r (except_return x r)"
  by (cases r) (auto simp: swallows_def except_return_def split: sum.splits)

lemma sentinel_on_error: "isl (fst r) \<Longrightarrow> fst (except_return x r) = Inr x"
  by (cases r) (auto simp: except_return_def split: sum.splits)

lemma document_get_eq:
  "document_get s i =
     (if call_ok (faults s) 0 then Inr (map_of (docs s) i) else Inl BackendError,
      s\<lparr>faults := tl (faults s), calls := calls s @ [DocGet i]\<rparr>)"
  by (simp add: document_get_def remote_eq)

lemma document_set_eq:
  "document_set s i d =
     (if call_ok (faults s) 0
      then (Inr (), s\<lparr>faults := tl (faults s), calls := calls s @ [DocSet i],
                      docs := AList.update i (stamp_fields (clock s) d) (docs s),
                      clock := Suc (clock s)\<rparr>)
      else (Inl BackendError, s\<lparr>faults := tl (faults s), calls := calls s @ [DocSet i]\<rparr>))"
  by (simp add: document_set_def remote_eq)

lemma document_update_eq:
  "document_update s i upd =
     (if call_ok (faults s) 0
      then (case map_of (docs s) i of
              None \<Rightarrow> (Inl BackendError, s\<lparr>faults := tl (faults s), calls := calls s @ [DocUpdate i]\<rparr>)
            | Some stored \<Rightarrow>
                (Inr (), s\<lparr>faults := tl (faults s), calls := calls s @ [DocUpdate i],
                            docs := AList.update i (merge_fields stored (stamp_fields (clock s) upd)) (docs s),
                            clock := Suc (clock s)\<rparr>))
      else (Inl BackendError, s\<lparr>faults := tl (faults s), calls := calls s @ [DocUpdate i]\<rparr>))"
  by (simp add: document_update_def remote_eq split: option.splits)

lemma document_delete_eq:
  "document_delete s i =
     (if call_ok (faults s) 0
      then (Inr (), s\<lparr>faults := tl (faults s), calls := calls s @ [DocDelete i],
                      docs := AList.delete i (docs s)\<rparr>)
      else (Inl BackendError, s\<lparr>faults := tl (faults s), calls := calls s @ [DocDelete i]\<rparr>))"
  by (simp add: document_delete_def remote_eq)

lemma query_stream_eq:
  "query_stream s user_id limit =
     (if call_ok (faults s) 0
      then Inr (take limit (rev (sort_key created_rank
              (filter (\<lambda>d. py_get d ''user_id'' PNone = PStr user_id) (map snd (docs s))))))
      else Inl BackendError,
      s\<lparr>faults := tl (faults s), calls := calls s @ [QueryStream user_id limit]\<rparr>)"
  by (simp add: query_stream_def remote_eq)

section \<open>Dictionaries in the store\<close>

lemma map_of_stamp_fields: "map_of (stamp_fields t d) k = map_option (stamp t) (map_of d k)"
  by (induction d) (auto simp: stamp_fields_def)

lemma keys_stamp_fields: "map fst (stamp_fields t d) = map fst d"
  by (induction d) (auto simp: stamp_fields_def)

lemma map_of_merge_fields:
  "map_of (merge_fields stored upd) k =
     (case map_of upd k of None \<Rightarrow> map_of stored k | Some v \<Rightarrow> Some v)"
  by (induction upd) (auto simp: merge_fields_def update_conv')

lemma updated_at_after_update:
  "py_get (merge_fields stored
      (stamp_fields t (AList.update ''updated_at'' fs_SERVER_TIMESTAMP updates)))
     ''updated_at'' PNone = PTimestamp t"
  by (simp add: py_get_def map_of_merge_fields map_of_stamp_fields update_conv')

lemma frame_after_update:
  "k \<noteq> ''updated_at'' \<Longrightarrow>
   map_of (merge_fields stored
      (stamp_fields t (AList.update ''updated_at'' fs_SERVER_TIMESTAMP updates))) k =
     (case map_of updates k of None \<Rightarrow> map_of stored k | Some v \<Rightarrow> Some (stamp t v))"
  by (simp add: map_of_merge_fields map_of_stamp_fields update_conv' split: option.splits)

lemma list_all_map_of:
  "list_all P al \<Longrightarrow> map_of al k = Some v \<Longrightarrow> P (k, v)"
  by (auto simp: list_all_iff dest: map_of_SomeD)

lemma stamps_in_pastD:
  "stamps_in_past s \<Longrightarrow> map_of (docs s) i = Some d \<Longrightarrow>
     time_rank (py_get d ''updated_at'' PNone) \<le> clock s"
  unfolding stamps_in_past_def by (drule (1) list_all_map_of) simp

lemma length_le_foldr_max: "x \<in> set used \<Longrightarrow> length x \<le> foldr (\<lambda>x n. max (length x) n) used 0"
  by (induction used) auto

lemma fresh_id_fresh: "fresh_id used \<notin> set used"
proof
  assume "fresh_id used \<in> set used"
  then have "length (fresh_id used) \<le> foldr (\<lambda>x n. max (length x) n) used 0"
    by (rule length_le_foldr_max)
  then show False by (simp add: fresh_id_def)
qed

section \<open>Facts about the test inputs\<close>

lemma backend1_facts:
  "call_ok (faults backend1) 0" "call_ok (faults backend1) 1"
  "map_of (docs backend1) ''p1'' = Some deck" "owned_by backend1 ''p1'' ''alice''"
  "stamps_in_past backend1" "clock backend1 = 5"
  by (simp_all add: backend1_def backend0_def call_ok_def owned_by_def deck_def py_get_def
      stamps_in_past_def)

lemma fresh_id_backend1: "fresh_id (issued backend1) = ''u''"
  by (simp add: fresh_id_def backend1_def backend0_def)

section \<open>Lookup\<close>

lemma get_presentation_absent:
  "map_of (docs s) ppt_id = None \<Longrightarrow> fst (get_presentation s ppt_id r) = Inr None"
  by (simp add: get_presentation_def get_presentation_body_def document_get_eq except_return_def)

lemma get_presentation_other:
  "map_of (docs s) ppt_id = Some data \<Longrightarrow> u \<noteq> [] \<Longrightarrow> py_get data ''user_id'' PNone \<noteq> PStr u
    \<Longrightarrow> fst (get_presentation s ppt_id (Some u)) = Inr None"
  by (simp add: get_presentation_def get_presentation_body_def document_get_eq except_return_def)

text \<open>
  C1. For a non-empty requester, \<^verbatim>\<open>get_presentation\<close> answers \<^verbatim>\<open>None\<close> both when
  the collection has no record under the id and when it has one whose stored
  \<^verbatim>\<open>user_id\<close> is not the requester: the two responses are the same value, whatever the
  backend does in either run.
\<close>

theorem get_presentation_not_found_indistinguishable:
  assumes "user_id \<noteq> []"
    and "map_of (docs s_absent) ppt_id = None"
    and "map_of (docs s_other) ppt_id = Some data"
    and "py_get data ''user_id'' PNone \<noteq> PStr user_id"
  shows "fst (get_presentation s_absent ppt_id (Some user_id)) = Inr None
       \<and> fst (get_presentation s_other ppt_id (Some user_id)) = Inr None"
  using assms by (simp add: get_presentation_absent get_presentation_other)

theorem get_presentation_not_found_indistinguishable_witness:
  "''bob'' \<noteq> [] \<and> map_of (docs backend0) ''p1'' = None
   \<and> map_of (docs backend1) ''p1'' = Some deck
   \<and> py_get deck ''user_id'' PNone \<noteq> PStr ''bob''
   \<and> fst (get_presentation backend0 ''p1'' (Some ''bob'')) = Inr None
   \<and> fst (get_presentation backend1 ''p1'' (Some ''bob'')) = Inr None"
proof -
  have a: "''bob'' \<noteq> []" by simp
  have b: "map_of (docs backend0) ''p1'' = None" by (simp add: backend0_def)
  have c: "map_of (docs backend1) ''p1'' = Some deck" by (simp add: backend1_def backend0_def)
  have d: "py_get deck ''user_id'' PNone \<noteq> PStr ''bob''" by (simp add: deck_def py_get_def)
  from get_presentation_not_found_indistinguishable [OF a b c d] a b c d show ?thesis by simp
qed

text \<open>
  C8. When the fetch returns an existing record and the requester is \<^verbatim>\<open>None\<close> or the
  empty string, \<^verbatim>\<open>get_presentation\<close> makes no ownership comparison and returns the
  record, whoever owns it.
\<close>

theorem get_presentation_falsy_requester:
  assumes "call_ok (faults s) 0"
    and "map_of (docs s) ppt_id = Some data"
    and "requester = None \<or> requester = Some []"
  shows "fst (get_presentation s ppt_id requester) = Inr (Some data)"
  using assms
  by (auto simp: get_presentation_def get_presentation_body_def document_get_eq except_return_def)

theorem get_presentation_falsy_requester_witness:
  "call_ok (faults backend1) 0 \<and> map_of (docs backend1) ''p1'' = Some deck
   \<and> py_get deck ''user_id'' PNone = PStr ''alice''
   \<and> fst (get_presentation backend1 ''p1'' (Some [])) = Inr (Some deck)
   \<and> fst (get_presentation backend1 ''p1'' None) = Inr (Some deck)"
proof -
  have a: "call_ok (faults backend1) 0" by (simp add: backend1_def backend0_def call_ok_def)
  have b: "map_of (docs backend1) ''p1'' = Some deck" by (simp add: backend1_def backend0_def)
  have c: "py_get deck ''user_id'' PNone = PStr ''alice''" by (simp add: deck_def py_get_def)
  have d: "fst (get_presentation backend1 ''p1'' (Some [])) = Inr (Some deck)"
    by (rule get_presentation_falsy_requester [OF a b]) simp
  have e: "fst (get_presentation backend1 ''p1'' None) = Inr (Some deck)"
    by (rule get_presentation_falsy_requester [OF a b]) simp
  from a b c d e show ?thesis by simp
qed

section \<open>Creation\<close>

lemma create_presentation_success:
  assumes "create_presentation s user_id presentation_data = (Inr ppt_id, s')"
  shows "\<exists>n. py_len (py_get presentation_data ''slides'' (PList [])) = Inr n
           \<and> ppt_id = fresh_id (issued s)
           \<and> issued s' = ppt_id # issued s
           \<and> call_ok (faults s) 0
           \<and> map_of (docs s') ppt_id =
               Some (stamp_fields (clock s) (doc_data_of ppt_id user_id presentation_data n))"
  using assms
  by (auto simp: create_presentation_def uuid4_def document_set_eq update_conv'
      split: sum.splits if_splits)

lemma create_presentation_failure:
  "fst (create_presentation s user_id presentation_data) =
     (case py_len (py_get presentation_data ''slides'' (PList [])) of
        Inl e \<Rightarrow> Inl e
      | Inr n \<Rightarrow> if call_ok (faults s) 0 then Inr (fresh_id (issued s)) else Inl BackendError)"
  by (auto simp: create_presentation_def uuid4_def document_set_eq split: sum.splits)

text \<open>
  C2. When \<^verbatim>\<open>presentation_data['slides']\<close> is a list of \<open>N\<close> slides and
  \<^verbatim>\<open>create_presentation\<close> returns an id, the collection holds under that id a record
  with \<^verbatim>\<open>slide_count\<close> \<open>N\<close>, the given slides, \<^verbatim>\<open>topic\<close> and \<^verbatim>\<open>theme\<close> as given or
  else the empty string and \<^verbatim>\<open>modern\<close>, both timestamps the server's time of the
  write, and \<^verbatim>\<open>ppt_id\<close> the returned id, which is none of the ids generated before.
\<close>

theorem create_presentation_record:
  assumes slides: "map_of presentation_data ''slides'' = Some (PList slides)"
    and ok: "create_presentation s user_id presentation_data = (Inr ppt_id, s')"
  shows "\<exists>data. map_of (docs s') ppt_id = Some data
           \<and> py_get data ''slide_count'' PNone = PInt (int (length slides))
           \<and> py_get data ''slides'' PNone = PList slides
           \<and> py_get data ''topic'' PNone =
               (case map_of presentation_data ''topic'' of
                  None \<Rightarrow> PStr [] | Some v \<Rightarrow> stamp (clock s) v)
           \<and> py_get data ''theme'' PNone =
               (case map_of presentation_data ''theme'' of
                  None \<Rightarrow> PStr ''modern'' | Some v \<Rightarrow> stamp (clock s) v)
           \<and> py_get data ''created_at'' PNone = PTimestamp (clock s)
           \<and> py_get data ''updated_at'' PNone = PTimestamp (clock s)
           \<and> py_get data ''ppt_id'' PNone = PStr ppt_id
           \<and> ppt_id \<notin> set (issued s)
           \<and> issued s' = ppt_id # issued s"
proof -
  from slides have len: "py_len (py_get presentation_data ''slides'' (PList [])) = Inr (length slides)"
    by (simp add: py_get_def)
  from create_presentation_success [OF ok] len
  have fresh: "ppt_id = fresh_id (issued s)" and iss: "issued s' = ppt_id # issued s"
    and stored: "map_of (docs s') ppt_id =
      Some (stamp_fields (clock s) (doc_data_of ppt_id user_id presentation_data (length slides)))"
    by auto
  let ?data = "stamp_fields (clock s) (doc_data_of ppt_id user_id presentation_data (length slides))"
  have "py_get ?data ''slide_count'' PNone = PInt (int (length slides))"
    by (simp add: py_get_def map_of_stamp_fields doc_data_of_def)
  moreover have "py_get ?data ''slides'' PNone = PList slides"
    using slides by (simp add: py_get_def map_of_stamp_fields doc_data_of_def)
  moreover have "py_get ?data ''topic'' PNone =
               (case map_of presentation_data ''topic'' of
                  None \<Rightarrow> PStr [] | Some v \<Rightarrow> stamp (clock s) v)"
    by (simp add: py_get_def map_of_stamp_fields doc_data_of_def split: option.splits)
  moreover have "py_get ?data ''theme'' PNone =
               (case map_of presentation_data ''theme'' of
                  None \<Rightarrow> PStr ''modern'' | Some v \<Rightarrow> stamp (clock s) v)"
    by (simp add: py_get_def map_of_stamp_fields doc_data_of_def split: option.splits)
  moreover have "py_get ?data ''created_at'' PNone = PTimestamp (clock s)"
    by (simp add: py_get_def map_of_stamp_fields doc_data_of_def)
  moreover have "py_get ?data ''updated_at'' PNone = PTimestamp (clock s)"
    by (simp add: py_get_def map_of_stamp_fields doc_data_of_def)
  moreover have "py_get ?data ''ppt_id'' PNone = PStr ppt_id"
    by (simp add: py_get_def map_of_stamp_fields doc_data_of_def)
  moreover have "ppt_id \<notin> set (issued s)"
    unfolding fresh by (rule fresh_id_fresh)
  ultimately show ?thesis using stored iss by blast
qed

theorem create_presentation_record_witness:
  "map_of [(''slides'', PList [PDict [], PDict []])] ''slides'' = Some (PList [PDict [], PDict []])
   \<and> fst (create_presentation backend1 ''bob'' [(''slides'', PList [PDict [], PDict []])]) = Inr ''u''
   \<and> (\<exists>data. map_of (docs (snd (create_presentation backend1 ''bob''
                                    [(''slides'', PList [PDict [], PDict []])]))) ''u'' = Some data
          \<and> py_get data ''slide_count'' PNone = PInt 2
          \<and> py_get data ''topic'' PNone = PStr []
          \<and> py_get data ''theme'' PNone = PStr ''modern''
          \<and> py_get data ''created_at'' PNone = PTimestamp 5
          \<and> py_get data ''updated_at'' PNone = PTimestamp 5
          \<and> py_get data ''ppt_id'' PNone = PStr ''u'')
   \<and> ''u'' \<notin> set (issued backend1)"
proof -
  let ?d = "[(''slides'', PList [PDict [], PDict []])]"
  have a: "map_of ?d ''slides'' = Some (PList [PDict [], PDict []])" by simp
  have b: "fst (create_presentation backend1 ''bob'' ?d) = Inr ''u''"
    using backend1_facts(1) by (simp add: create_presentation_failure py_get_def fresh_id_backend1)
  then have ok: "create_presentation backend1 ''bob'' ?d =
      (Inr ''u'', snd (create_presentation backend1 ''bob'' ?d))"
    by (simp add: prod_eq_iff)
  have topic: "map_of ?d ''topic'' = None" and theme: "map_of ?d ''theme'' = None"
    by simp_all
  from create_presentation_record [OF a ok]
  obtain data where
    d1: "map_of (docs (snd (create_presentation backend1 ''bob'' ?d))) ''u'' = Some data"
    and d2: "py_get data ''slide_count'' PNone = PInt (int (length [PDict [], PDict []]))"
    and d3: "py_get data ''topic'' PNone =
               (case map_of ?d ''topic'' of
                  None \<Rightarrow> PStr [] | Some v \<Rightarrow> stamp (clock backend1) v)"
    and d4: "py_get data ''theme'' PNone =
               (case map_of ?d ''theme'' of
                  None \<Rightarrow> PStr ''modern'' | Some v \<Rightarrow> stamp (clock backend1) v)"
    and d5: "py_get data ''created_at'' PNone = PTimestamp (clock backend1)"
    and d6: "py_get data ''updated_at'' PNone = PTimestamp (clock backend1)"
    and d7: "py_get data ''ppt_id'' PNone = PStr ''u''"
    and d8: "''u'' \<notin> set (issued backend1)"
    by (elim exE conjE)
  from d2 have e2: "py_get data ''slide_count'' PNone = PInt 2" by simp
  from d3 have e3: "py_get data ''topic'' PNone = PStr []" unfolding topic by simp
  from d4 have e4: "py_get data ''theme'' PNone = PStr ''modern''" unfolding theme by simp
  from d5 have e5: "py_get data ''created_at'' PNone = PTimestamp 5"
    unfolding backend1_facts(6) .
  from d6 have e6: "py_get data ''updated_at'' PNone = PTimestamp 5"
    unfolding backend1_facts(6) .
  show ?thesis
    by (intro conjI exI [of _ data] a b d1 e2 e3 e4 e5 e6 d7 d8)
qed

text \<open>
  C9. The record stored by a successful \<^verbatim>\<open>create_presentation\<close> has exactly the ten
  keys of the dictionary literal; its \<^verbatim>\<open>user_id\<close> is the argument and its
  \<^verbatim>\<open>ppt_id\<close> the generated id, whatever \<^verbatim>\<open>presentation_data\<close> holds under those keys.
\<close>

theorem create_presentation_keys:
  assumes ok: "create_presentation s user_id presentation_data = (Inr ppt_id, s')"
  shows "\<exists>data. map_of (docs s') ppt_id = Some data
           \<and> map fst data = [''ppt_id'', ''user_id'', ''topic'', ''theme'', ''slides'',
                 ''slide_count'', ''created_at'', ''updated_at'', ''content_sources'',
                 ''brand_colors'']
           \<and> fst ` set data = {''ppt_id'', ''user_id'', ''topic'', ''theme'', ''slides'',
                 ''slide_count'', ''created_at'', ''updated_at'', ''content_sources'',
                 ''brand_colors''}
           \<and> py_get data ''user_id'' PNone = PStr user_id
           \<and> py_get data ''ppt_id'' PNone = PStr ppt_id
           \<and> ppt_id = fresh_id (issued s)"
proof -
  from create_presentation_success [OF ok] obtain n
    where fresh: "ppt_id = fresh_id (issued s)"
    and stored: "map_of (docs s') ppt_id =
      Some (stamp_fields (clock s) (doc_data_of ppt_id user_id presentation_data n))"
    by auto
  let ?data = "stamp_fields (clock s) (doc_data_of ppt_id user_id presentation_data n)"
  have keys: "map fst ?data = [''ppt_id'', ''user_id'', ''topic'', ''theme'', ''slides'',
                 ''slide_count'', ''created_at'', ''updated_at'', ''content_sources'',
                 ''brand_colors'']"
    by (simp add: keys_stamp_fields doc_data_of_def)
  have "fst ` set ?data = set (map fst ?data)" by simp
  also have "\<dots> = {''ppt_id'', ''user_id'', ''topic'', ''theme'', ''slides'',
                 ''slide_count'', ''created_at'', ''updated_at'', ''content_sources'',
                 ''brand_colors''}"
    unfolding keys by simp
  finally have keyset: "fst ` set ?data = {''ppt_id'', ''user_id'', ''topic'', ''theme'', ''slides'',
                 ''slide_count'', ''created_at'', ''updated_at'', ''content_sources'',
                 ''brand_colors''}" .
  have owner: "py_get ?data ''user_id'' PNone = PStr user_id"
    by (simp add: py_get_def map_of_stamp_fields doc_data_of_def)
  have ident: "py_get ?data ''ppt_id'' PNone = PStr ppt_id"
    by (simp add: py_get_def map_of_stamp_fields doc_data_of_def)
  show ?thesis
    by (rule exI [of _ ?data]) (intro conjI stored keys keyset owner ident fresh)
qed

theorem create_presentation_keys_witness:
  "fst (create_presentation backend1 ''bob''
          [(''user_id'', PStr ''alice''), (''ppt_id'', PStr ''p1'')]) = Inr ''u''
   \<and> (\<exists>data. map_of (docs (snd (create_presentation backend1 ''bob''
                  [(''user_id'', PStr ''alice''), (''ppt_id'', PStr ''p1'')]))) ''u'' = Some data
          \<and> map fst data = [''ppt_id'', ''user_id'', ''topic'', ''theme'', ''slides'',
                 ''slide_count'', ''created_at'', ''updated_at'', ''content_sources'',
                 ''brand_colors'']
          \<and> py_get data ''user_id'' PNone = PStr ''bob''
          \<and> py_get data ''ppt_id'' PNone = PStr ''u'')"
proof -
  let ?d = "[(''user_id'', PStr ''alice''), (''ppt_id'', PStr ''p1'')]"
  have b: "fst (create_presentation backend1 ''bob'' ?d) = Inr ''u''"
    using backend1_facts(1) by (simp add: create_presentation_failure py_get_def fresh_id_backend1)
  then have ok: "create_presentation backend1 ''bob'' ?d =
      (Inr ''u'', snd (create_presentation backend1 ''bob'' ?d))"
    by (simp add: prod_eq_iff)
  from create_presentation_keys [OF ok]
  obtain data where
    d1: "map_of (docs (snd (create_presentation backend1 ''bob'' ?d))) ''u'' = Some data"
    and d2: "map fst data = [''ppt_id'', ''user_id'', ''topic'', ''theme'', ''slides'',
                 ''slide_count'', ''created_at'', ''updated_at'', ''content_sources'',
                 ''brand_colors'']"
    and d3: "py_get data ''user_id'' PNone = PStr ''bob''"
    and d4: "py_get data ''ppt_id'' PNone = PStr ''u''"
    by (elim exE conjE)
  show ?thesis
    by (intro conjI exI [of _ data] b d1 d2 d3 d4)
qed

section \<open>Update\<close>

lemma update_presentation_fst:
  "fst (update_presentation s ppt_id user_id updates) =
     Inr (owned_by s ppt_id user_id \<and> call_ok (faults s) 0 \<and> call_ok (faults s) 1)"
  by (auto simp: update_presentation_def update_presentation_body_def document_get_eq
      document_update_eq except_return_def owned_by_def call_ok_tl split: option.splits)

lemma update_presentation_docs:
  assumes "fst (update_presentation s ppt_id user_id updates) = Inr True"
    and "map_of (docs s) ppt_id = Some stored"
  shows "docs (snd (snd (update_presentation s ppt_id user_id updates))) =
         AList.update ppt_id
           (merge_fields stored
              (stamp_fields (clock s) (AList.update ''updated_at'' fs_SERVER_TIMESTAMP updates)))
           (docs s)"
  using assms
  by (auto simp: update_presentation_def update_presentation_body_def document_get_eq
      document_update_eq except_return_def call_ok_tl split: option.splits if_splits)

lemma update_presentation_arg:
  "fst (snd (update_presentation s ppt_id user_id updates)) =
     (if owned_by s ppt_id user_id \<and> call_ok (faults s) 0
      then AList.update ''updated_at'' fs_SERVER_TIMESTAMP updates else updates)"
  by (auto simp: update_presentation_def update_presentation_body_def document_get_eq
      document_update_eq except_return_def owned_by_def call_ok_tl split: option.splits)

text \<open>
  C3. \<^verbatim>\<open>update_presentation\<close> returns \<^verbatim>\<open>False\<close> when the record does not exist, when
  its \<^verbatim>\<open>user_id\<close> is not the requester, and when the fetch or the write raises; it
  returns \<^verbatim>\<open>True\<close> exactly when the requester owns the record and both calls go
  through. Then, on a collection whose \<^verbatim>\<open>updated_at\<close> stamps were assigned before now,
  the new \<^verbatim>\<open>updated_at\<close> is the server's time and not earlier than the previous one.
\<close>

theorem update_presentation_outcome:
  fixes s ppt_id user_id updates
  defines "r \<equiv> update_presentation s ppt_id user_id updates"
  shows "(map_of (docs s) ppt_id = None \<longrightarrow> fst r = Inr False)
       \<and> (\<forall>data. map_of (docs s) ppt_id = Some data
              \<and> py_get data ''user_id'' PNone \<noteq> PStr user_id \<longrightarrow> fst r = Inr False)
       \<and> (\<not> call_ok (faults s) 0 \<longrightarrow> fst r = Inr False)
       \<and> (\<not> call_ok (faults s) 1 \<longrightarrow> fst r = Inr False)
       \<and> (fst r = Inr True
            \<longleftrightarrow> owned_by s ppt_id user_id \<and> call_ok (faults s) 0 \<and> call_ok (faults s) 1)
       \<and> (fst r = Inr True \<and> stamps_in_past s \<longrightarrow>
            (\<exists>old new. map_of (docs s) ppt_id = Some old
               \<and> map_of (docs (snd (snd r))) ppt_id = Some new
               \<and> py_get new ''updated_at'' PNone = PTimestamp (clock s)
               \<and> time_rank (py_get old ''updated_at'' PNone)
                   \<le> time_rank (py_get new ''updated_at'' PNone)))"
proof -
  have res: "fst r = Inr (owned_by s ppt_id user_id \<and> call_ok (faults s) 0 \<and> call_ok (faults s) 1)"
    unfolding r_def by (rule update_presentation_fst)
  have a: "map_of (docs s) ppt_id = None \<longrightarrow> fst r = Inr False"
    by (simp add: res owned_by_def)
  have b: "\<forall>data. map_of (docs s) ppt_id = Some data
              \<and> py_get data ''user_id'' PNone \<noteq> PStr user_id \<longrightarrow> fst r = Inr False"
    by (simp add: res owned_by_def)
  have c: "\<not> call_ok (faults s) 0 \<longrightarrow> fst r = Inr False"
    by (simp add: res)
  have d: "\<not> call_ok (faults s) 1 \<longrightarrow> fst r = Inr False"
    by (simp add: res)
  have e: "fst r = Inr True
            \<longleftrightarrow> owned_by s ppt_id user_id \<and> call_ok (faults s) 0 \<and> call_ok (faults s) 1"
    by (simp add: res)
  have f: "\<exists>old new. map_of (docs s) ppt_id = Some old
               \<and> map_of (docs (snd (snd r))) ppt_id = Some new
               \<and> py_get new ''updated_at'' PNone = PTimestamp (clock s)
               \<and> time_rank (py_get old ''updated_at'' PNone)
                   \<le> time_rank (py_get new ''updated_at'' PNone)"
    if ok: "fst r = Inr True" and inv: "stamps_in_past s"
  proof -
    from ok e have "owned_by s ppt_id user_id" by simp
    then obtain old where old: "map_of (docs s) ppt_id = Some old"
      by (auto simp: owned_by_def split: option.splits)
    let ?new = "merge_fields old
        (stamp_fields (clock s) (AList.update ''updated_at'' fs_SERVER_TIMESTAMP updates))"
    from ok old have "docs (snd (snd r)) = AList.update ppt_id ?new (docs s)"
      unfolding r_def by (rule update_presentation_docs)
    then have new: "map_of (docs (snd (snd r))) ppt_id = Some ?new"
      by (simp add: update_conv')
    have stamped: "py_get ?new ''updated_at'' PNone = PTimestamp (clock s)"
      by (rule updated_at_after_update)
    from inv old have "time_rank (py_get old ''updated_at'' PNone) \<le> clock s"
      by (rule stamps_in_pastD)
    with stamped have "time_rank (py_get old ''updated_at'' PNone)
        \<le> time_rank (py_get ?new ''updated_at'' PNone)" by simp
    with old new stamped show ?thesis by blast
  qed
  from a b c d e f show ?thesis by blast
qed

theorem update_presentation_outcome_witness:
  "owned_by backend1 ''p1'' ''alice'' \<and> call_ok (faults backend1) 0 \<and> call_ok (faults backend1) 1
   \<and> stamps_in_past backend1
   \<and> fst (update_presentation backend1 ''p1'' ''alice'' [(''topic'', PStr ''x'')]) = Inr True
   \<and> (\<exists>new. map_of (docs (snd (snd (update_presentation backend1 ''p1'' ''alice''
                                        [(''topic'', PStr ''x'')])))) ''p1'' = Some new
          \<and> py_get new ''updated_at'' PNone = PTimestamp 5
          \<and> time_rank (py_get deck ''updated_at'' PNone) \<le> time_rank (py_get new ''updated_at'' PNone))
   \<and> fst (update_presentation backend0 ''p1'' ''alice'' [(''topic'', PStr ''x'')]) = Inr False
   \<and> fst (update_presentation backend1 ''p1'' ''bob'' [(''topic'', PStr ''x'')]) = Inr False
   \<and> fst (update_presentation (backend1\<lparr>faults := [True]\<rparr>) ''p1'' ''alice''
             [(''topic'', PStr ''x'')]) = Inr False
   \<and> fst (update_presentation (backend1\<lparr>faults := [False, True]\<rparr>) ''p1'' ''alice''
             [(''topic'', PStr ''x'')]) = Inr False"
proof -
  note ok = update_presentation_outcome [of backend1 "''p1''" "''alice''" "[(''topic'', PStr ''x'')]"]
  from ok backend1_facts
  have t: "fst (update_presentation backend1 ''p1'' ''alice'' [(''topic'', PStr ''x'')]) = Inr True"
    by simp
  with ok backend1_facts
  have n: "\<exists>new. map_of (docs (snd (snd (update_presentation backend1 ''p1'' ''alice''
                                        [(''topic'', PStr ''x'')])))) ''p1'' = Some new
          \<and> py_get new ''updated_at'' PNone = PTimestamp 5
          \<and> time_rank (py_get deck ''updated_at'' PNone) \<le> time_rank (py_get new ''updated_at'' PNone)"
    by auto
  have "map_of (docs backend0) ''p1'' = None" by (simp add: backend0_def)
  with update_presentation_outcome [of backend0 "''p1''" "''alice''" "[(''topic'', PStr ''x'')]"]
  have a: "fst (update_presentation backend0 ''p1'' ''alice'' [(''topic'', PStr ''x'')]) = Inr False"
    by simp
  have "py_get deck ''user_id'' PNone \<noteq> PStr ''bob''" by (simp add: deck_def py_get_def)
  with update_presentation_outcome [of backend1 "''p1''" "''bob''" "[(''topic'', PStr ''x'')]"]
    backend1_facts(3)
  have b: "fst (update_presentation backend1 ''p1'' ''bob'' [(''topic'', PStr ''x'')]) = Inr False"
    by simp
  have "\<not> call_ok (faults (backend1\<lparr>faults := [True]\<rparr>)) 0" by (simp add: call_ok_def)
  with update_presentation_outcome [of "backend1\<lparr>faults := [True]\<rparr>" "''p1''" "''alice''"
      "[(''topic'', PStr ''x'')]"]
  have c: "fst (update_presentation (backend1\<lparr>faults := [True]\<rparr>) ''p1'' ''alice''
             [(''topic'', PStr ''x'')]) = Inr False"
    by simp
  have "\<not> call_ok (faults (backend1\<lparr>faults := [False, True]\<rparr>)) 1" by (simp add: call_ok_def)
  with update_presentation_outcome [of "backend1\<lparr>faults := [False, True]\<rparr>" "''p1''" "''alice''"
      "[(''topic'', PStr ''x'')]"]
  have d: "fst (update_presentation (backend1\<lparr>faults := [False, True]\<rparr>) ''p1'' ''alice''
             [(''topic'', PStr ''x'')]) = Inr False"
    by simp
  from backend1_facts t n a b c d show ?thesis by simp
qed

text \<open>
  C7. After a successful \<^verbatim>\<open>update_presentation\<close> every field of the record whose key
  is not in the patch, \<^verbatim>\<open>updated_at\<close> apart, is what it was; every field named in the
  patch holds the patch's value as a whole; in particular \<^verbatim>\<open>slide_count\<close> keeps its
  previous value when the patch does not name it, also when the patch replaces
  \<^verbatim>\<open>slides\<close>.
\<close>

theorem update_presentation_shallow_merge:
  fixes s ppt_id user_id updates
  defines "r \<equiv> update_presentation s ppt_id user_id updates"
  assumes ok: "fst r = Inr True"
  shows "\<exists>old new. map_of (docs s) ppt_id = Some old
           \<and> map_of (docs (snd (snd r))) ppt_id = Some new
           \<and> (\<forall>k. k \<notin> fst ` set updates \<and> k \<noteq> ''updated_at'' \<longrightarrow> map_of new k = map_of old k)
           \<and> (\<forall>k v. map_of updates k = Some v \<and> k \<noteq> ''updated_at''
                  \<longrightarrow> map_of new k = Some (stamp (clock s) v))
           \<and> (''slide_count'' \<notin> fst ` set updates
                  \<longrightarrow> py_get new ''slide_count'' PNone = py_get old ''slide_count'' PNone)"
proof -
  from ok have "owned_by s ppt_id user_id"
    unfolding r_def by (simp add: update_presentation_fst)
  then obtain old where old: "map_of (docs s) ppt_id = Some old"
    by (auto simp: owned_by_def split: option.splits)
  let ?new = "merge_fields old
      (stamp_fields (clock s) (AList.update ''updated_at'' fs_SERVER_TIMESTAMP updates))"
  from ok old have "docs (snd (snd r)) = AList.update ppt_id ?new (docs s)"
    unfolding r_def by (rule update_presentation_docs)
  then have new: "map_of (docs (snd (snd r))) ppt_id = Some ?new"
    by (simp add: update_conv')
  have absent: "map_of updates k = None" if "k \<notin> fst ` set updates" for k
    using that by (simp add: map_of_eq_None_iff)
  have kept: "\<forall>k. k \<notin> fst ` set updates \<and> k \<noteq> ''updated_at'' \<longrightarrow> map_of ?new k = map_of old k"
    by (simp add: frame_after_update absent)
  have written: "\<forall>k v. map_of updates k = Some v \<and> k \<noteq> ''updated_at''
                  \<longrightarrow> map_of ?new k = Some (stamp (clock s) v)"
    by (simp add: frame_after_update)
  have count: "''slide_count'' \<notin> fst ` set updates
        \<longrightarrow> py_get ?new ''slide_count'' PNone = py_get old ''slide_count'' PNone"
    by (simp add: py_get_def frame_after_update absent)
  from old new kept written count show ?thesis by blast
qed

theorem update_presentation_shallow_merge_witness:
  "fst (update_presentation backend1 ''p1'' ''alice'' [(''slides'', PList [])]) = Inr True
   \<and> (\<exists>new. map_of (docs (snd (snd (update_presentation backend1 ''p1'' ''alice''
                                        [(''slides'', PList [])])))) ''p1'' = Some new
          \<and> py_get new ''slides'' PNone = PList []
          \<and> py_get new ''slide_count'' PNone = PInt 2
          \<and> map_of new ''topic'' = Some (PStr ''whales''))"
proof -
  have ok: "fst (update_presentation backend1 ''p1'' ''alice'' [(''slides'', PList [])]) = Inr True"
    using backend1_facts by (simp add: update_presentation_fst)
  from update_presentation_shallow_merge [OF ok] backend1_facts(3,6)
  obtain new where
    new: "map_of (docs (snd (snd (update_presentation backend1 ''p1'' ''alice''
                                        [(''slides'', PList [])])))) ''p1'' = Some new"
    and kept: "\<forall>k. k \<notin> fst ` set [(''slides'', PList [])] \<and> k \<noteq> ''updated_at''
                \<longrightarrow> map_of new k = map_of deck k"
    and written: "\<forall>k v. map_of [(''slides'', PList [])] k = Some v \<and> k \<noteq> ''updated_at''
                  \<longrightarrow> map_of new k = Some (stamp 5 v)"
    and count: "''slide_count'' \<notin> fst ` set [(''slides'', PList [])]
                  \<longrightarrow> py_get new ''slide_count'' PNone = py_get deck ''slide_count'' PNone"
    by auto
  from written have "map_of new ''slides'' = Some (stamp 5 (PList []))" by simp
  then have a: "py_get new ''slides'' PNone = PList []" by (simp add: py_get_def)
  from count have b: "py_get new ''slide_count'' PNone = PInt 2"
    by (simp add: deck_def py_get_def)
  from kept have "map_of new ''topic'' = map_of deck ''topic''" by simp
  then have c: "map_of new ''topic'' = Some (PStr ''whales'')" by (simp add: deck_def)
  from ok new a b c show ?thesis by blast
qed

text \<open>
  C10. \<^verbatim>\<open>update_presentation\<close> writes into the caller's dictionary: once the fetch has
  returned a record the requester owns, the dictionary holds the server-timestamp
  sentinel under \<^verbatim>\<open>updated_at\<close> and its other keys as before, whether or not the write
  that follows goes through; when the record is missing or owned by someone else the
  dictionary is what the caller passed.
\<close>

theorem update_presentation_mutates_argument:
  fixes s ppt_id user_id updates
  defines "after \<equiv> fst (snd (update_presentation s ppt_id user_id updates))"
  shows "(call_ok (faults s) 0 \<and> owned_by s ppt_id user_id
            \<longrightarrow> after = AList.update ''updated_at'' fs_SERVER_TIMESTAMP updates
              \<and> map_of after ''updated_at'' = Some fs_SERVER_TIMESTAMP
              \<and> (\<forall>k. k \<noteq> ''updated_at'' \<longrightarrow> map_of after k = map_of updates k))
       \<and> (map_of (docs s) ppt_id = None \<longrightarrow> after = updates)
       \<and> (\<forall>data. map_of (docs s) ppt_id = Some data
              \<and> py_get data ''user_id'' PNone \<noteq> PStr user_id \<longrightarrow> after = updates)"
  unfolding after_def
  by (simp add: update_presentation_arg owned_by_def update_conv')

theorem update_presentation_mutates_argument_witness:
  "call_ok (faults backend1) 0 \<and> owned_by backend1 ''p1'' ''alice''
   \<and> fst (snd (update_presentation backend1 ''p1'' ''alice'' [(''topic'', PStr ''x'')])) =
        [(''topic'', PStr ''x''), (''updated_at'', fs_SERVER_TIMESTAMP)]
   \<and> fst (snd (update_presentation (backend1\<lparr>faults := [False, True]\<rparr>) ''p1'' ''alice''
                  [(''topic'', PStr ''x'')])) =
        [(''topic'', PStr ''x''), (''updated_at'', fs_SERVER_TIMESTAMP)]
   \<and> fst (update_presentation (backend1\<lparr>faults := [False, True]\<rparr>) ''p1'' ''alice''
             [(''topic'', PStr ''x'')]) = Inr False
   \<and> fst (snd (update_presentation backend0 ''p1'' ''alice'' [(''topic'', PStr ''x'')])) =
        [(''topic'', PStr ''x'')]
   \<and> fst (snd (update_presentation backend1 ''p1'' ''bob'' [(''topic'', PStr ''x'')])) =
        [(''topic'', PStr ''x'')]"
proof -
  from update_presentation_mutates_argument
    [of backend1 "''p1''" "''alice''" "[(''topic'', PStr ''x'')]"] backend1_facts
  have a: "fst (snd (update_presentation backend1 ''p1'' ''alice'' [(''topic'', PStr ''x'')])) =
        [(''topic'', PStr ''x''), (''updated_at'', fs_SERVER_TIMESTAMP)]"
    by simp
  have "call_ok (faults (backend1\<lparr>faults := [False, True]\<rparr>)) 0"
    and "owned_by (backend1\<lparr>faults := [False, True]\<rparr>) ''p1'' ''alice''"
    using backend1_facts(4) by (simp_all add: call_ok_def owned_by_def)
  with update_presentation_mutates_argument
    [of "backend1\<lparr>faults := [False, True]\<rparr>" "''p1''" "''alice''" "[(''topic'', PStr ''x'')]"]
  have b: "fst (snd (update_presentation (backend1\<lparr>faults := [False, True]\<rparr>) ''p1'' ''alice''
                  [(''topic'', PStr ''x'')])) =
        [(''topic'', PStr ''x''), (''updated_at'', fs_SERVER_TIMESTAMP)]"
    by simp
  have c: "fst (update_presentation (backend1\<lparr>faults := [False, True]\<rparr>) ''p1'' ''alice''
             [(''topic'', PStr ''x'')]) = Inr False"
    by (simp add: update_presentation_fst call_ok_def)
  have "map_of (docs backend0) ''p1'' = None" by (simp add: backend0_def)
  with update_presentation_mutates_argument
    [of backend0 "''p1''" "''alice''" "[(''topic'', PStr ''x'')]"]
  have d: "fst (snd (update_presentation backend0 ''p1'' ''alice'' [(''topic'', PStr ''x'')])) =
        [(''topic'', PStr ''x'')]"
    by simp
  have "py_get deck ''user_id'' PNone \<noteq> PStr ''bob''" by (simp add: deck_def py_get_def)
  with update_presentation_mutates_argument
    [of backend1 "''p1''" "''bob''" "[(''topic'', PStr ''x'')]"] backend1_facts(3)
  have e: "fst (snd (update_presentation backend1 ''p1'' ''bob'' [(''topic'', PStr ''x'')])) =
        [(''topic'', PStr ''x'')]"
    by simp
  from backend1_facts a b c d e show ?thesis by simp
qed

section \<open>Deletion\<close>

lemma blob_delete_snd:
  "faults (snd (blob_delete s p)) = tl (faults s)
   \<and> calls (snd (blob_delete s p)) = calls s @ [BlobDelete p]
   \<and> docs (snd (blob_delete s p)) = docs s
   \<and> clock (snd (blob_delete s p)) = clock s"
  by (simp add: blob_delete_def remote_eq split: pyval.splits option.splits)

lemma delete_image_snd:
  "faults (snd (delete_image s p)) = tl (faults s)
   \<and> calls (snd (delete_image s p)) = calls s @ [BlobDelete p]
   \<and> docs (snd (delete_image s p)) = docs s
   \<and> clock (snd (delete_image s p)) = clock s"
proof -
  have "snd (delete_image s p) = snd (blob_delete s p)"
    by (cases "blob_delete s p")
      (auto simp: delete_image_def delete_image_body_def except_return_snd split: sum.splits)
  then show ?thesis by (simp add: blob_delete_snd)
qed

lemma delete_slide_images_dicts:
  "list_all is_dict slides \<Longrightarrow>
     fst (delete_slide_images s slides) = Inr ()
   \<and> faults (snd (delete_slide_images s slides)) = drop (length (image_paths slides)) (faults s)
   \<and> calls (snd (delete_slide_images s slides)) = calls s @ map BlobDelete (image_paths slides)
   \<and> docs (snd (delete_slide_images s slides)) = docs s
   \<and> clock (snd (delete_slide_images s slides)) = clock s"
proof (induction slides arbitrary: s)
  case Nil
  then show ?case by (simp add: image_paths_def)
next
  case (Cons slide rest)
  then obtain d where d: "slide = PDict d" and rest: "list_all is_dict rest"
    by (cases slide) auto
  show ?case
  proof (cases "truthy (py_get d ''image_storage_path'' PNone)")
    case True
    with d have paths: "image_paths (slide # rest) = py_get d ''image_storage_path'' PNone # image_paths rest"
      by (simp add: image_paths_def)
    from True d have step: "delete_slide_images s (slide # rest) =
        delete_slide_images (snd (delete_image s (py_get d ''image_storage_path'' PNone))) rest"
      by simp
    show ?thesis
      unfolding step paths
      using Cons.IH [OF rest, of "snd (delete_image s (py_get d ''image_storage_path'' PNone))"]
      by (simp add: delete_image_snd drop_Suc)
  next
    case False
    with d have paths: "image_paths (slide # rest) = image_paths rest"
      by (simp add: image_paths_def)
    from False d have step: "delete_slide_images s (slide # rest) = delete_slide_images s rest"
      by simp
    show ?thesis unfolding step paths using Cons.IH [OF rest, of s] by simp
  qed
qed

lemma delete_presentation_owner_run:
  assumes fetch: "call_ok (faults s) 0"
    and stored: "map_of (docs s) ppt_id = Some data"
    and owner: "py_get data ''user_id'' PNone = PStr user_id"
    and slides: "py_get data ''slides'' (PList []) = PList slides"
    and dicts: "list_all is_dict slides"
  shows "delete_presentation s ppt_id user_id =
           except_return False
             (case document_delete
                     (snd (delete_slide_images
                        (s\<lparr>faults := tl (faults s), calls := calls s @ [DocGet ppt_id]\<rparr>) slides))
                     ppt_id of
                (Inl e, s3) \<Rightarrow> (Inl e, s3)
              | (Inr u, s3) \<Rightarrow> (Inr True, s3))"
proof -
  let ?s1 = "s\<lparr>faults := tl (faults s), calls := calls s @ [DocGet ppt_id]\<rparr>"
  obtain a s2 where loop: "delete_slide_images ?s1 slides = (a, s2)"
    by (cases "delete_slide_images ?s1 slides")
  from delete_slide_images_dicts [OF dicts, of ?s1] loop have a: "a = Inr ()" by simp
  show ?thesis
    unfolding delete_presentation_def delete_presentation_body_def
    using fetch stored owner slides
    by (simp add: document_get_eq loop a)
qed

text \<open>
  C4, as the code has it. When the fetch returns a record the requester owns whose
  \<^verbatim>\<open>slides\<close> field is absent or a list, every element of it a dictionary,
  \<^verbatim>\<open>delete_presentation\<close> calls the storage delete for every slide whose
  \<^verbatim>\<open>image_storage_path\<close> is true in a condition, in order, and then the record
  delete, whichever of the storage deletes raise. When the record delete goes through,
  the result is \<^verbatim>\<open>True\<close>, the record is gone, and a later
  \<^verbatim>\<open>get_presentation\<close> by the owner answers \<^verbatim>\<open>None\<close>. (A \<^verbatim>\<open>slides\<close> field
  that is present and not a list, \<^verbatim>\<open>None\<close> for one, is outside this statement: the
  loop raises on it before the record delete.)
\<close>

theorem delete_presentation_owner:
  fixes s ppt_id user_id
  defines "r \<equiv> delete_presentation s ppt_id user_id"
  assumes fetch: "call_ok (faults s) 0"
    and stored: "map_of (docs s) ppt_id = Some data"
    and owner: "py_get data ''user_id'' PNone = PStr user_id"
    and slides: "py_get data ''slides'' (PList []) = PList slides"
    and dicts: "list_all is_dict slides"
  shows "calls (snd r) =
           calls s @ [DocGet ppt_id] @ map BlobDelete (image_paths slides) @ [DocDelete ppt_id]
       \<and> (call_ok (faults s) (Suc (length (image_paths slides))) \<longrightarrow>
            fst r = Inr True
          \<and> map_of (docs (snd r)) ppt_id = None
          \<and> (\<forall>fs. fst (get_presentation ((snd r)\<lparr>faults := fs\<rparr>) ppt_id (Some user_id)) = Inr None))"
proof -
  let ?s1 = "s\<lparr>faults := tl (faults s), calls := calls s @ [DocGet ppt_id]\<rparr>"
  let ?s2 = "snd (delete_slide_images ?s1 slides)"
  let ?k = "length (image_paths slides)"
  have run: "r = except_return False
             (case document_delete ?s2 ppt_id of
                (Inl e, s3) \<Rightarrow> (Inl e, s3)
              | (Inr u, s3) \<Rightarrow> (Inr True, s3))"
    unfolding r_def using fetch stored owner slides dicts by (rule delete_presentation_owner_run)
  from delete_slide_images_dicts [OF dicts, of ?s1]
  have f2: "faults ?s2 = drop ?k (tl (faults s))"
    and c2: "calls ?s2 = calls s @ [DocGet ppt_id] @ map BlobDelete (image_paths slides)"
    and d2: "docs ?s2 = docs s"
    by simp_all
  have ok2: "call_ok (faults ?s2) 0 = call_ok (faults s) (Suc ?k)"
    by (simp add: f2 call_ok_drop call_ok_tl)
  have log: "calls (snd r) =
           calls s @ [DocGet ppt_id] @ map BlobDelete (image_paths slides) @ [DocDelete ppt_id]"
    unfolding run by (simp add: except_return_snd document_delete_eq c2)
  have gone: "fst r = Inr True \<and> map_of (docs (snd r)) ppt_id = None
          \<and> (\<forall>fs. fst (get_presentation ((snd r)\<lparr>faults := fs\<rparr>) ppt_id (Some user_id)) = Inr None)"
    if "call_ok (faults s) (Suc ?k)"
  proof -
    from that ok2 have ok: "call_ok (faults ?s2) 0" by simp
    have res: "fst r = Inr True"
      unfolding run using ok by (simp add: except_return_def document_delete_eq)
    have absent: "map_of (docs (snd r)) ppt_id = None"
      unfolding run using ok by (simp add: except_return_def document_delete_eq delete_conv')
    have "fst (get_presentation ((snd r)\<lparr>faults := fs\<rparr>) ppt_id (Some user_id)) = Inr None" for fs
      using absent by (intro get_presentation_absent) simp
    with res absent show ?thesis by simp
  qed
  from log gone show ?thesis by simp
qed

theorem delete_presentation_owner_witness:
  "call_ok (faults (backend1\<lparr>faults := [False, True]\<rparr>)) 0
   \<and> map_of (docs (backend1\<lparr>faults := [False, True]\<rparr>)) ''p1'' = Some deck
   \<and> py_get deck ''user_id'' PNone = PStr ''alice''
   \<and> image_paths [PDict [(''title'', PStr ''one''),
                          (''image_url'', PStr ''http://img/1''),
                          (''image_storage_path'', PStr ''users/alice/1.jpg'')],
                   PDict [(''title'', PStr ''two'')]] = [PStr ''users/alice/1.jpg'']
   \<and> calls (snd (delete_presentation (backend1\<lparr>faults := [False, True]\<rparr>) ''p1'' ''alice'')) =
        [DocGet ''p1'', BlobDelete (PStr ''users/alice/1.jpg''), DocDelete ''p1'']
   \<and> fst (delete_presentation (backend1\<lparr>faults := [False, True]\<rparr>) ''p1'' ''alice'') = Inr True
   \<and> fst (get_presentation
            (snd (delete_presentation (backend1\<lparr>faults := [False, True]\<rparr>) ''p1'' ''alice''))
            ''p1'' (Some ''alice'')) = Inr None"
proof -
  let ?s = "backend1\<lparr>faults := [False, True]\<rparr>"
  let ?slides = "[PDict [(''title'', PStr ''one''),
                          (''image_url'', PStr ''http://img/1''),
                          (''image_storage_path'', PStr ''users/alice/1.jpg'')],
                   PDict [(''title'', PStr ''two'')]]"
  let ?r = "delete_presentation ?s ''p1'' ''alice''"
  have a: "call_ok (faults ?s) 0" by (simp add: call_ok_def)
  have b: "map_of (docs ?s) ''p1'' = Some deck" using backend1_facts(3) by simp
  have c: "py_get deck ''user_id'' PNone = PStr ''alice''" by (simp add: deck_def py_get_def)
  have d: "py_get deck ''slides'' (PList []) = PList ?slides" by (simp add: deck_def py_get_def)
  have e: "list_all is_dict ?slides" by simp
  have p: "image_paths ?slides = [PStr ''users/alice/1.jpg'']"
    by (simp add: image_paths_def py_get_def)
  have k: "call_ok (faults ?s) (Suc (length (image_paths ?slides)))"
    unfolding p by (simp add: call_ok_def)
  have c0: "calls ?s = []" by (simp add: backend1_def backend0_def)
  note t = delete_presentation_owner [OF a b c d e]
  from t have log: "calls (snd ?r) =
      calls ?s @ [DocGet ''p1''] @ map BlobDelete (image_paths ?slides) @ [DocDelete ''p1'']"
    by (rule conjunct1)
  then have log': "calls (snd ?r) =
      [DocGet ''p1'', BlobDelete (PStr ''users/alice/1.jpg''), DocDelete ''p1'']"
    unfolding p c0 by simp
  note fin = t [THEN conjunct2, THEN mp, OF k]
  from fin have res: "fst ?r = Inr True" by (rule conjunct1)
  from fin [THEN conjunct2, THEN conjunct2, THEN spec, of "faults (snd ?r)"]
  have gone: "fst (get_presentation (snd ?r) ''p1'' (Some ''alice'')) = Inr None" by simp
  show ?thesis by (intro conjI a b c p log' res gone)
qed

text \<open>
  C4, as the claim states it, fails when the record delete raises: the handler returns
  \<^verbatim>\<open>False\<close>, the record stays, and the owner still gets it (here after its image was
  deleted from storage).
\<close>

theorem delete_presentation_record_delete_fails:
  "owned_by backend1 ''p1'' ''alice''
   \<and> fst (delete_presentation (backend1\<lparr>faults := [False, False, True]\<rparr>) ''p1'' ''alice'') = Inr False
   \<and> fst (get_presentation
            (snd (delete_presentation (backend1\<lparr>faults := [False, False, True]\<rparr>) ''p1'' ''alice''))
            ''p1'' (Some ''alice'')) = Inr (Some deck)"
  by (simp add: owned_by_def backend1_def backend0_def deck_def py_get_def
      delete_presentation_def delete_presentation_body_def document_get_def remote_def
      delete_image_def delete_image_body_def blob_delete_def document_delete_def
      except_return_def get_presentation_def get_presentation_body_def)

section \<open>Listing\<close>

lemma thumbnail_Inr:
  assumes "thumbnail d = Inr th"
  shows "th = first_image_url (py_get d ''slides'' PNone)"
proof (cases "map_of d ''slides''")
  case None
  with assms show ?thesis by (simp add: thumbnail_def py_get_def)
next
  case (Some v)
  then have a: "py_get d ''slides'' PNone = v" and b: "py_get d ''slides'' (PList [PDict []]) = v"
    by (simp_all add: py_get_def)
  from assms show ?thesis
    unfolding thumbnail_def a b
    by (cases v rule: first_image_url.cases) (auto simp: neq_Nil_conv split: if_splits)
qed

lemma summary_Inr: "summary d = Inr x \<Longrightarrow> x = summary_view d"
  by (auto simp: summary_def summary_view_def split: sum.splits dest: thumbnail_Inr)

lemma summaries_Inr: "summaries ds = Inr xs \<Longrightarrow> xs = map summary_view ds"
  by (induction ds arbitrary: xs) (auto split: sum.splits dest: summary_Inr)

lemma created_rank_summary_view: "created_rank (summary_view d) = created_rank d"
  by (simp add: created_rank_def summary_view_def py_get_def)

lemma descending_take_rev_sort:
  "sorted_wrt (\<lambda>a b. b \<le> a) (map f (take n (rev (sort_key f xs))))"
proof -
  have "sorted (map f (sort_key f xs))" by (rule sorted_sort_key)
  then have "sorted_wrt (\<lambda>a b. b \<le> a) (rev (map f (sort_key f xs)))"
    by (simp add: sorted_wrt_rev)
  then have "sorted_wrt (\<lambda>a b. b \<le> a) (take n (rev (map f (sort_key f xs))))"
    by (rule sorted_wrt_take)
  then show ?thesis by (simp add: take_map rev_map)
qed

lemma listing_backend2:
  "fst (get_user_presentations backend2 ''alice'' 2) = Inr [summary_view deck2, summary_view deck]"
  by (simp add: get_user_presentations_def get_user_presentations_body_def query_stream_eq
      except_return_def backend2_def backend1_def backend0_def call_ok_def
      deck_def deck2_def deck3_def py_get_def created_rank_def summary_def summary_view_def
      thumbnail_def)

text \<open>
  C5. \<^verbatim>\<open>get_user_presentations\<close> never raises. What it returns has at most \<open>limit\<close>
  entries, in descending order of \<^verbatim>\<open>created_at\<close>; each entry is the summary of a
  stored record whose \<^verbatim>\<open>user_id\<close> is the queried one, with the first slide's
  \<^verbatim>\<open>image_url\<close> as thumbnail, or \<^verbatim>\<open>None\<close> when the record has no slide; when the
  query raises, the result is the empty list.
\<close>

theorem get_user_presentations_listing:
  fixes s user_id limit
  defines "r \<equiv> fst (get_user_presentations s user_id limit)"
  shows "\<exists>xs ds. r = Inr xs
           \<and> length xs \<le> limit
           \<and> sorted_wrt (\<lambda>a b. b \<le> a) (map created_rank xs)
           \<and> xs = map summary_view ds
           \<and> set ds \<subseteq> snd ` set (docs s)
           \<and> (\<forall>d \<in> set ds. py_get d ''user_id'' PNone = PStr user_id)
           \<and> (\<not> call_ok (faults s) 0 \<longrightarrow> xs = [])"
proof -
  let ?found = "take limit (rev (sort_key created_rank
              (filter (\<lambda>d. py_get d ''user_id'' PNone = PStr user_id) (map snd (docs s)))))"
  have empty: "\<exists>xs ds. Inr [] = Inr xs
           \<and> length xs \<le> limit
           \<and> sorted_wrt (\<lambda>a b. b \<le> a) (map created_rank xs)
           \<and> xs = map summary_view ds
           \<and> set ds \<subseteq> snd ` set (docs s)
           \<and> (\<forall>d \<in> set ds. py_get d ''user_id'' PNone = PStr user_id)
           \<and> (\<not> call_ok (faults s) 0 \<longrightarrow> xs = [])"
    by (rule exI [of _ "[]"], rule exI [of _ "[]"]) simp
  show ?thesis
  proof (cases "call_ok (faults s) 0")
    case False
    then have "r = Inr []"
      unfolding r_def
      by (simp add: get_user_presentations_def get_user_presentations_body_def query_stream_eq
          except_return_def)
    with empty show ?thesis by simp
  next
    case True
    then have run: "r = (case summaries ?found of Inl e \<Rightarrow> Inr [] | Inr xs \<Rightarrow> Inr xs)"
      unfolding r_def
      by (simp add: get_user_presentations_def get_user_presentations_body_def query_stream_eq
          except_return_def split: sum.splits)
    show ?thesis
    proof (cases "summaries ?found")
      case (Inl e)
      with run have "r = Inr []" by simp
      with empty show ?thesis by simp
    next
      case (Inr xs)
      then have xs: "xs = map summary_view ?found" by (rule summaries_Inr)
      from run Inr have r: "r = Inr xs" by simp
      have len: "length xs \<le> limit" by (simp add: xs)
      have "map created_rank xs = map created_rank ?found"
        by (simp add: xs created_rank_summary_view o_def)
      then have ord: "sorted_wrt (\<lambda>a b. b \<le> a) (map created_rank xs)"
        by (simp add: descending_take_rev_sort)
      have "set ?found \<subseteq> set (filter (\<lambda>d. py_get d ''user_id'' PNone = PStr user_id) (map snd (docs s)))"
        using set_take_subset [of limit "rev (sort_key created_rank
              (filter (\<lambda>d. py_get d ''user_id'' PNone = PStr user_id) (map snd (docs s))))"]
        by simp
      then have sub: "set ?found \<subseteq> snd ` set (docs s)"
        and own: "\<forall>d \<in> set ?found. py_get d ''user_id'' PNone = PStr user_id"
        by auto
      from True have nofault: "\<not> call_ok (faults s) 0 \<longrightarrow> xs = []" by simp
      show ?thesis
        by (rule exI [of _ xs], rule exI [of _ ?found]) (intro conjI r len ord xs sub own nofault)
    qed
  qed
qed

theorem get_user_presentations_listing_witness:
  "fst (get_user_presentations (backend2\<lparr>faults := [True]\<rparr>) ''alice'' 2) = Inr []
   \<and> fst (get_user_presentations backend2 ''alice'' 2) = Inr [summary_view deck2, summary_view deck]
   \<and> (\<exists>xs ds. fst (get_user_presentations backend2 ''alice'' 2) = Inr xs
          \<and> length xs \<le> 2
          \<and> sorted_wrt (\<lambda>a b. b \<le> a) (map created_rank xs)
          \<and> xs = map summary_view ds
          \<and> set ds \<subseteq> snd ` set (docs backend2)
          \<and> (\<forall>d \<in> set ds. py_get d ''user_id'' PNone = PStr ''alice''))"
proof -
  have f: "\<not> call_ok (faults (backend2\<lparr>faults := [True]\<rparr>)) 0" by (simp add: call_ok_def)
  from get_user_presentations_listing [of "backend2\<lparr>faults := [True]\<rparr>" "''alice''" 2]
  obtain xs and ds :: "pydict list" where "fst (get_user_presentations (backend2\<lparr>faults := [True]\<rparr>) ''alice'' 2) = Inr xs"
    and "\<not> call_ok (faults (backend2\<lparr>faults := [True]\<rparr>)) 0 \<longrightarrow> xs = []"
    by (elim exE conjE)
  with f have a: "fst (get_user_presentations (backend2\<lparr>faults := [True]\<rparr>) ''alice'' 2) = Inr []"
    by simp
  from get_user_presentations_listing [of backend2 "''alice''" 2]
  obtain xs ds where "fst (get_user_presentations backend2 ''alice'' 2) = Inr xs"
    and "length xs \<le> 2"
    and "sorted_wrt (\<lambda>a b. b \<le> a) (map created_rank xs)"
    and "xs = map summary_view ds"
    and "set ds \<subseteq> snd ` set (docs backend2)"
    and "\<forall>d \<in> set ds. py_get d ''user_id'' PNone = PStr ''alice''"
    by (elim exE conjE)
  then have c: "\<exists>xs ds. fst (get_user_presentations backend2 ''alice'' 2) = Inr xs
          \<and> length xs \<le> 2
          \<and> sorted_wrt (\<lambda>a b. b \<le> a) (map created_rank xs)
          \<and> xs = map summary_view ds
          \<and> set ds \<subseteq> snd ` set (docs backend2)
          \<and> (\<forall>d \<in> set ds. py_get d ''user_id'' PNone = PStr ''alice'')"
    by (intro exI conjI)
  from a listing_backend2 c show ?thesis by (intro conjI)
qed

section \<open>The error boundary\<close>

lemma first_call_fault:
  assumes "\<not> call_ok (faults s) 0"
  shows "isl (fst (verify_token_body s id_token))"
    and "isl (fst (get_user_body s u))"
    and "isl (fst (create_custom_token_body s u))"
    and "isl (fst (upload_image_body s image_path destination_path))"
    and "isl (fst (upload_image_from_bytes_body s image_bytes destination_path ctype))"
    and "isl (fst (delete_image_body s storage_path))"
    and "isl (fst (get_presentation_body s ppt_id requester))"
    and "isl (fst (update_presentation_body s ppt_id user_id updates))"
    and "isl (fst (delete_presentation_body s ppt_id user_id))"
    and "isl (fst (get_user_presentations_body s user_id limit))"
  using assms
  by (simp_all add: verify_token_body_def auth_verify_id_token_def
      get_user_body_def auth_get_user_def
      create_custom_token_body_def auth_create_custom_token_def
      upload_image_body_def blob_upload_from_filename_def
      upload_image_from_bytes_body_def blob_upload_from_string_def
      delete_image_body_def blob_delete_def
      get_presentation_body_def update_presentation_body_def delete_presentation_body_def
      document_get_eq get_user_presentations_body_def query_stream_eq
      remote_eq split: option.splits)

text \<open>
  C6. Every operation except \<^verbatim>\<open>create_presentation\<close> returns a value, never an error:
  the sentinel (\<^verbatim>\<open>None\<close>, \<^verbatim>\<open>False\<close>, the empty list) whenever its body raised, in
  particular when its first remote call raises. \<^verbatim>\<open>create_presentation\<close> hands the
  error of \<^verbatim>\<open>len\<close> and the error of the write to its caller.
\<close>

theorem facade_error_boundary:
  "swallows None (verify_token_body s id_token) (verify_token s id_token)
   \<and> swallows None (get_user_body s u) (get_user s u)
   \<and> swallows None (create_custom_token_body s u) (create_custom_token s u)
   \<and> swallows None (upload_image_body s image_path destination_path)
        (upload_image s image_path destination_path)
   \<and> swallows None (upload_image_from_bytes_body s image_bytes destination_path ctype)
        (upload_image_from_bytes s image_bytes destination_path ctype)
   \<and> swallows False (delete_image_body s storage_path) (delete_image s storage_path)
   \<and> swallows None (get_presentation_body s ppt_id requester) (get_presentation s ppt_id requester)
   \<and> swallows False (update_presentation_body s ppt_id user_id updates)
        (update_presentation s ppt_id user_id updates)
   \<and> swallows False (delete_presentation_body s ppt_id user_id)
        (delete_presentation s ppt_id user_id)
   \<and> swallows [] (get_user_presentations_body s user_id limit)
        (get_user_presentations s user_id limit)
   \<and> (\<not> call_ok (faults s) 0 \<longrightarrow>
          fst (verify_token s id_token) = Inr None
        \<and> fst (get_user s u) = Inr None
        \<and> fst (create_custom_token s u) = Inr None
        \<and> fst (upload_image s image_path destination_path) = Inr None
        \<and> fst (upload_image_from_bytes s image_bytes destination_path ctype) = Inr None
        \<and> fst (delete_image s storage_path) = Inr False
        \<and> fst (get_presentation s ppt_id requester) = Inr None
        \<and> fst (update_presentation s ppt_id user_id updates) = Inr False
        \<and> fst (delete_presentation s ppt_id user_id) = Inr False
        \<and> fst (get_user_presentations s user_id limit) = Inr [])
   \<and> fst (create_presentation s user_id presentation_data) =
        (case py_len (py_get presentation_data ''slides'' (PList [])) of
           Inl e \<Rightarrow> Inl e
         | Inr n \<Rightarrow> if call_ok (faults s) 0 then Inr (fresh_id (issued s)) else Inl BackendError)"
proof -
  have sentinels: "fst (verify_token s id_token) = Inr None
        \<and> fst (get_user s u) = Inr None
        \<and> fst (create_custom_token s u) = Inr None
        \<and> fst (upload_image s image_path destination_path) = Inr None
        \<and> fst (upload_image_from_bytes s image_bytes destination_path ctype) = Inr None
        \<and> fst (delete_image s storage_path) = Inr False
        \<and> fst (get_presentation s ppt_id requester) = Inr None
        \<and> fst (update_presentation s ppt_id user_id updates) = Inr False
        \<and> fst (delete_presentation s ppt_id user_id) = Inr False
        \<and> fst (get_user_presentations s user_id limit) = Inr []"
    if "\<not> call_ok (faults s) 0"
    unfolding verify_token_def get_user_def create_custom_token_def upload_image_def
      upload_image_from_bytes_def delete_image_def get_presentation_def
      update_presentation_def delete_presentation_def get_user_presentations_def
    by (intro conjI sentinel_on_error first_call_fault that)
  show ?thesis
    unfolding verify_token_def get_user_def create_custom_token_def upload_image_def
      upload_image_from_bytes_def delete_image_def get_presentation_def
      update_presentation_def delete_presentation_def get_user_presentations_def
    apply (intro conjI swallows_except_return)
    subgoal using sentinels
      unfolding verify_token_def get_user_def create_custom_token_def upload_image_def
      upload_image_from_bytes_def delete_image_def get_presentation_def
      update_presentation_def delete_presentation_def get_user_presentations_def
      by blast
    subgoal by (rule create_presentation_failure)
    done
qed

theorem facade_error_boundary_witness:
  "\<not> call_ok (faults (backend1\<lparr>faults := [True]\<rparr>)) 0
   \<and> fst (verify_token (backend1\<lparr>faults := [True]\<rparr>) ''tok'') = Inr None
   \<and> fst (get_user (backend1\<lparr>faults := [True]\<rparr>) ''alice'') = Inr None
   \<and> fst (create_custom_token (backend1\<lparr>faults := [True]\<rparr>) ''alice'') = Inr None
   \<and> fst (upload_image (backend1\<lparr>faults := [True]\<rparr>) ''/tmp/a.jpg'' ''users/alice/2.jpg'') = Inr None
   \<and> fst (upload_image_from_bytes (backend1\<lparr>faults := [True]\<rparr>) ''jpeg'' ''users/alice/2.jpg''
            ''image/jpeg'') = Inr None
   \<and> fst (delete_image (backend1\<lparr>faults := [True]\<rparr>) (PStr ''users/alice/1.jpg'')) = Inr False
   \<and> fst (get_presentation (backend1\<lparr>faults := [True]\<rparr>) ''p1'' (Some ''alice'')) = Inr None
   \<and> fst (update_presentation (backend1\<lparr>faults := [True]\<rparr>) ''p1'' ''alice'' []) = Inr False
   \<and> fst (delete_presentation (backend1\<lparr>faults := [True]\<rparr>) ''p1'' ''alice'') = Inr False
   \<and> fst (get_user_presentations (backend1\<lparr>faults := [True]\<rparr>) ''alice'' 50) = Inr []
   \<and> fst (create_presentation (backend1\<lparr>faults := [True]\<rparr>) ''alice'' []) = Inl BackendError
   \<and> fst (create_presentation backend1 ''alice'' [(''slides'', PNone)]) = Inl TypeError"
proof -
  let ?s = "backend1\<lparr>faults := [True]\<rparr>"
  have f: "\<not> call_ok (faults ?s) 0" by (simp add: call_ok_def)
  note t = facade_error_boundary [of ?s "''tok''" "''alice''" "''/tmp/a.jpg''" "''users/alice/2.jpg''"
      "''jpeg''" "''image/jpeg''" "PStr ''users/alice/1.jpg''" "''p1''" "Some ''alice''" "''alice''"
      "[]" 50 "[]"]
  note rest = t [THEN conjunct2, THEN conjunct2, THEN conjunct2, THEN conjunct2, THEN conjunct2,
      THEN conjunct2, THEN conjunct2, THEN conjunct2, THEN conjunct2, THEN conjunct2]
  note sent = rest [THEN conjunct1, THEN mp, OF f]
  from rest [THEN conjunct2] f
  have c1: "fst (create_presentation ?s ''alice'' []) = Inl BackendError"
    by (simp add: py_get_def)
  from facade_error_boundary [of backend1 _ _ _ _ _ _ _ _ _ "''alice''" _ _ "[(''slides'', PNone)]"]
  have c2: "fst (create_presentation backend1 ''alice'' [(''slides'', PNone)]) = Inl TypeError"
    by (simp add: py_get_def)
  from f sent c1 c2 show ?thesis by simp
qed

section \<open>The timestamps of the collection\<close>

text \<open>
  The facade never writes \<^verbatim>\<open>updated_at\<close> itself, it sends the sentinel and the server
  stamps the write. So in every state the facade reaches from an empty collection, every
  stored \<^verbatim>\<open>updated_at\<close> was assigned before now.
\<close>

lemma set_update_subset: "set (AList.update k v al) \<subseteq> insert (k, v) (set al)"
  by (induction al) auto

lemma set_delete_subset: "set (AList.delete k al) \<subseteq> set al"
  by (auto simp: AList.delete_eq)

lemma stamps_in_past_same:
  "stamps_in_past s \<Longrightarrow> docs s' = docs s \<Longrightarrow> clock s' = clock s \<Longrightarrow> stamps_in_past s'"
  by (simp add: stamps_in_past_def)

lemma stamps_in_past_write:
  assumes inv: "stamps_in_past s"
    and new: "time_rank (py_get d ''updated_at'' PNone) \<le> Suc (clock s)"
    and docs: "docs s' = AList.update i d (docs s)"
    and clock: "clock s' = Suc (clock s)"
  shows "stamps_in_past s'"
proof -
  have "time_rank (py_get (snd x) ''updated_at'' PNone) \<le> Suc (clock s)"
    if "x \<in> set (AList.update i d (docs s))" for x
  proof -
    from that set_update_subset [of i d "docs s"] have "x = (i, d) \<or> x \<in> set (docs s)"
      by blast
    then show ?thesis
    proof
      assume "x = (i, d)"
      with new show ?thesis by simp
    next
      assume x: "x \<in> set (docs s)"
      from inv have "\<forall>x \<in> set (docs s). time_rank (py_get (snd x) ''updated_at'' PNone) \<le> clock s"
        by (simp add: stamps_in_past_def list_all_iff case_prod_unfold)
      from this x have "time_rank (py_get (snd x) ''updated_at'' PNone) \<le> clock s" by (rule bspec)
      then show ?thesis by simp
    qed
  qed
  then show ?thesis
    by (simp add: stamps_in_past_def list_all_iff docs clock case_prod_unfold)
qed

lemma stamps_in_past_delete:
  assumes inv: "stamps_in_past s"
    and docs: "docs s' = AList.delete i (docs s)"
    and clock: "clock s' = clock s"
  shows "stamps_in_past s'"
proof -
  from inv have "\<forall>x \<in> set (docs s). time_rank (py_get (snd x) ''updated_at'' PNone) \<le> clock s"
    by (simp add: stamps_in_past_def list_all_iff case_prod_unfold)
  with set_delete_subset [of i "docs s"]
  have "\<forall>x \<in> set (AList.delete i (docs s)). time_rank (py_get (snd x) ''updated_at'' PNone) \<le> clock s"
    by blast
  then show ?thesis
    by (simp add: stamps_in_past_def list_all_iff docs clock case_prod_unfold)
qed

lemma create_presentation_docs:
  "(docs (snd (create_presentation s user_id presentation_data)) = docs s
      \<and> clock (snd (create_presentation s user_id presentation_data)) = clock s)
   \<or> (\<exists>n. docs (snd (create_presentation s user_id presentation_data)) =
            AList.update (fresh_id (issued s))
              (stamp_fields (clock s)
                 (doc_data_of (fresh_id (issued s)) user_id presentation_data n))
              (docs s)
        \<and> clock (snd (create_presentation s user_id presentation_data)) = Suc (clock s))"
proof (cases "py_len (py_get presentation_data ''slides'' (PList []))")
  case (Inl e)
  then show ?thesis by (simp add: create_presentation_def uuid4_def)
next
  case (Inr n)
  show ?thesis
  proof (cases "call_ok (faults s) 0")
    case False
    with Inr show ?thesis by (simp add: create_presentation_def uuid4_def document_set_eq)
  next
    case True
    with Inr
    have "docs (snd (create_presentation s user_id presentation_data)) =
            AList.update (fresh_id (issued s))
              (stamp_fields (clock s)
                 (doc_data_of (fresh_id (issued s)) user_id presentation_data n))
              (docs s)"
      and "clock (snd (create_presentation s user_id presentation_data)) = Suc (clock s)"
      by (simp_all add: create_presentation_def uuid4_def document_set_eq)
    then show ?thesis by (intro disjI2 exI [of _ n] conjI)
  qed
qed

lemma create_presentation_keeps_stamps:
  assumes inv: "stamps_in_past s"
  shows "stamps_in_past (snd (create_presentation s user_id presentation_data))"
  using create_presentation_docs [of s user_id presentation_data]
proof (elim disjE exE conjE)
  assume "docs (snd (create_presentation s user_id presentation_data)) = docs s"
    and "clock (snd (create_presentation s user_id presentation_data)) = clock s"
  with inv show ?thesis by (rule stamps_in_past_same)
next
  fix n
  let ?d = "stamp_fields (clock s) (doc_data_of (fresh_id (issued s)) user_id presentation_data n)"
  assume d: "docs (snd (create_presentation s user_id presentation_data)) =
            AList.update (fresh_id (issued s)) ?d (docs s)"
    and c: "clock (snd (create_presentation s user_id presentation_data)) = Suc (clock s)"
  have "py_get ?d ''updated_at'' PNone = PTimestamp (clock s)"
    by (simp add: py_get_def map_of_stamp_fields doc_data_of_def)
  then have "time_rank (py_get ?d ''updated_at'' PNone) \<le> Suc (clock s)" by simp
  with inv show ?thesis using d c by (rule stamps_in_past_write)
qed

lemma update_presentation_state:
  "(docs (snd (snd (update_presentation s ppt_id user_id updates))) = docs s
      \<and> clock (snd (snd (update_presentation s ppt_id user_id updates))) = clock s)
   \<or> (\<exists>old. docs (snd (snd (update_presentation s ppt_id user_id updates))) =
            AList.update ppt_id
              (merge_fields old
                 (stamp_fields (clock s)
                    (AList.update ''updated_at'' fs_SERVER_TIMESTAMP updates)))
              (docs s)
        \<and> clock (snd (snd (update_presentation s ppt_id user_id updates))) = Suc (clock s))"
proof (cases "call_ok (faults s) 0")
  case False
  then show ?thesis
    by (simp add: update_presentation_def update_presentation_body_def document_get_eq
        except_return_def)
next
  case ok0: True
  show ?thesis
  proof (cases "map_of (docs s) ppt_id")
    case None
    with ok0 show ?thesis
      by (simp add: update_presentation_def update_presentation_body_def document_get_eq
          except_return_def)
  next
    case (Some data)
    show ?thesis
    proof (cases "py_get data ''user_id'' PNone = PStr user_id")
      case False
      with ok0 Some show ?thesis
        by (simp add: update_presentation_def update_presentation_body_def document_get_eq
            except_return_def)
    next
      case owner: True
      show ?thesis
      proof (cases "call_ok (faults s) 1")
        case False
        with ok0 Some owner show ?thesis
          by (simp add: update_presentation_def update_presentation_body_def document_get_eq
              document_update_eq except_return_def call_ok_tl)
      next
        case True
        with ok0 Some owner
        have "docs (snd (snd (update_presentation s ppt_id user_id updates))) =
            AList.update ppt_id
              (merge_fields data
                 (stamp_fields (clock s)
                    (AList.update ''updated_at'' fs_SERVER_TIMESTAMP updates)))
              (docs s)"
          and "clock (snd (snd (update_presentation s ppt_id user_id updates))) = Suc (clock s)"
          by (simp_all add: update_presentation_def update_presentation_body_def document_get_eq
              document_update_eq except_return_def call_ok_tl)
        then show ?thesis by (intro disjI2 exI [of _ data] conjI)
      qed
    qed
  qed
qed

lemma update_presentation_keeps_stamps:
  assumes inv: "stamps_in_past s"
  shows "stamps_in_past (snd (snd (update_presentation s ppt_id user_id updates)))"
  using update_presentation_state [of s ppt_id user_id updates]
proof (elim disjE exE conjE)
  assume "docs (snd (snd (update_presentation s ppt_id user_id updates))) = docs s"
    and "clock (snd (snd (update_presentation s ppt_id user_id updates))) = clock s"
  with inv show ?thesis by (rule stamps_in_past_same)
next
  fix old
  let ?new = "merge_fields old
      (stamp_fields (clock s) (AList.update ''updated_at'' fs_SERVER_TIMESTAMP updates))"
  assume d: "docs (snd (snd (update_presentation s ppt_id user_id updates))) =
      AList.update ppt_id ?new (docs s)"
    and c: "clock (snd (snd (update_presentation s ppt_id user_id updates))) = Suc (clock s)"
  have "time_rank (py_get ?new ''updated_at'' PNone) \<le> Suc (clock s)"
    by (simp add: updated_at_after_update)
  with inv show ?thesis using d c by (rule stamps_in_past_write)
qed

lemma delete_slide_images_docs:
  "docs (snd (delete_slide_images s slides)) = docs s
   \<and> clock (snd (delete_slide_images s slides)) = clock s"
proof (induction slides arbitrary: s)
  case Nil
  show ?case by simp
next
  case (Cons slide rest)
  show ?case
  proof (cases "py_get_attr slide ''image_storage_path''")
    case (Inl e)
    then show ?thesis by simp
  next
    case (Inr p)
    show ?thesis
    proof (cases "truthy p")
      case True
      with Inr have "delete_slide_images s (slide # rest) =
          delete_slide_images (snd (delete_image s p)) rest" by simp
      with Cons.IH [of "snd (delete_image s p)"] show ?thesis
        by (simp add: delete_image_snd)
    next
      case False
      with Inr have "delete_slide_images s (slide # rest) = delete_slide_images s rest" by simp
      with Cons.IH [of s] show ?thesis by simp
    qed
  qed
qed

lemma delete_presentation_docs:
  "(docs (snd (delete_presentation s ppt_id user_id)) = docs s
      \<or> docs (snd (delete_presentation s ppt_id user_id)) = AList.delete ppt_id (docs s))
   \<and> clock (snd (delete_presentation s ppt_id user_id)) = clock s"
proof -
  let ?s1 = "s\<lparr>faults := tl (faults s), calls := calls s @ [DocGet ppt_id]\<rparr>"
  have snd_eq: "snd (delete_presentation s ppt_id user_id) =
      snd (delete_presentation_body s ppt_id user_id)"
    by (simp add: delete_presentation_def except_return_snd)
  show ?thesis
  proof (cases "call_ok (faults s) 0")
    case False
    then show ?thesis
      unfolding snd_eq by (simp add: delete_presentation_body_def document_get_eq)
  next
    case ok0: True
    show ?thesis
    proof (cases "map_of (docs s) ppt_id")
      case None
      with ok0 show ?thesis
        unfolding snd_eq by (simp add: delete_presentation_body_def document_get_eq)
    next
      case (Some data)
      show ?thesis
      proof (cases "py_get data ''user_id'' PNone = PStr user_id")
        case False
        with ok0 Some show ?thesis
          unfolding snd_eq by (simp add: delete_presentation_body_def document_get_eq)
      next
        case owner: True
        show ?thesis
        proof (cases "py_iter (py_get data ''slides'' (PList []))")
          case (Inl e)
          with ok0 Some owner show ?thesis
            unfolding snd_eq by (simp add: delete_presentation_body_def document_get_eq)
        next
          case (Inr slides)
          obtain a s2 where run: "delete_slide_images ?s1 slides = (a, s2)"
            by (cases "delete_slide_images ?s1 slides")
          from delete_slide_images_docs [of ?s1 slides] run
          have s2: "docs s2 = docs s" "clock s2 = clock s" by simp_all
          from ok0 Some owner Inr run have body: "delete_presentation_body s ppt_id user_id =
              (case a of Inl e \<Rightarrow> (Inl e, s2)
               | Inr u \<Rightarrow> (case document_delete s2 ppt_id of
                              (Inl e, s3) \<Rightarrow> (Inl e, s3)
                            | (Inr u, s3) \<Rightarrow> (Inr True, s3)))"
            by (cases a) (simp_all add: delete_presentation_body_def document_get_eq)
          show ?thesis
            unfolding snd_eq body using s2
            by (cases a) (simp_all add: document_delete_eq)
        qed
      qed
    qed
  qed
qed

lemma delete_presentation_keeps_stamps:
  assumes inv: "stamps_in_past s"
  shows "stamps_in_past (snd (delete_presentation s ppt_id user_id))"
proof -
  from delete_presentation_docs [of s ppt_id user_id]
  have c: "clock (snd (delete_presentation s ppt_id user_id)) = clock s"
    and d: "docs (snd (delete_presentation s ppt_id user_id)) = docs s
      \<or> docs (snd (delete_presentation s ppt_id user_id)) = AList.delete ppt_id (docs s)"
    by simp_all
  from d show ?thesis
  proof
    assume "docs (snd (delete_presentation s ppt_id user_id)) = docs s"
    with inv show ?thesis using c by (rule stamps_in_past_same)
  next
    assume "docs (snd (delete_presentation s ppt_id user_id)) = AList.delete ppt_id (docs s)"
    with inv show ?thesis using c by (rule stamps_in_past_delete)
  qed
qed

lemma verify_token_docs:
  "docs (snd (verify_token s id_token)) = docs s \<and> clock (snd (verify_token s id_token)) = clock s"
  by (simp add: verify_token_def except_return_snd verify_token_body_def
      auth_verify_id_token_def remote_eq split: option.splits)

lemma get_user_docs:
  "docs (snd (get_user s u)) = docs s \<and> clock (snd (get_user s u)) = clock s"
  by (simp add: get_user_def except_return_snd get_user_body_def auth_get_user_def remote_eq
      split: option.splits)

lemma create_custom_token_docs:
  "docs (snd (create_custom_token s u)) = docs s \<and> clock (snd (create_custom_token s u)) = clock s"
  by (simp add: create_custom_token_def except_return_snd create_custom_token_body_def
      auth_create_custom_token_def remote_eq)

lemma blob_make_public_docs:
  "docs (snd (blob_make_public s path)) = docs s \<and> clock (snd (blob_make_public s path)) = clock s"
  by (simp add: blob_make_public_def remote_eq split: option.splits)

lemma upload_image_docs:
  "docs (snd (upload_image s image_path destination_path)) = docs s
     \<and> clock (snd (upload_image s image_path destination_path)) = clock s"
proof (cases "blob_upload_from_filename s destination_path image_path")
  case (Pair a s1)
  then have s1: "docs s1 = docs s \<and> clock s1 = clock s"
    by (auto simp: blob_upload_from_filename_def remote_eq split: option.splits if_splits)
  from Pair have "snd (upload_image s image_path destination_path) =
      (case a of Inl e \<Rightarrow> s1 | Inr u \<Rightarrow> snd (blob_make_public s1 destination_path))"
    by (cases a; cases "blob_make_public s1 destination_path")
      (auto simp: upload_image_def except_return_snd upload_image_body_def split: sum.splits)
  with s1 show ?thesis by (cases a) (simp_all add: blob_make_public_docs)
qed

lemma upload_image_from_bytes_docs:
  "docs (snd (upload_image_from_bytes s image_bytes destination_path ctype)) = docs s
     \<and> clock (snd (upload_image_from_bytes s image_bytes destination_path ctype)) = clock s"
proof (cases "blob_upload_from_string s destination_path image_bytes ctype")
  case (Pair a s1)
  then have s1: "docs s1 = docs s \<and> clock s1 = clock s"
    by (auto simp: blob_upload_from_string_def remote_eq split: if_splits)
  from Pair have "snd (upload_image_from_bytes s image_bytes destination_path ctype) =
      (case a of Inl e \<Rightarrow> s1 | Inr u \<Rightarrow> snd (blob_make_public s1 destination_path))"
    by (cases a; cases "blob_make_public s1 destination_path")
      (auto simp: upload_image_from_bytes_def except_return_snd upload_image_from_bytes_body_def
        split: sum.splits)
  with s1 show ?thesis by (cases a) (simp_all add: blob_make_public_docs)
qed

lemma get_presentation_docs:
  "docs (snd (get_presentation s ppt_id requester)) = docs s
     \<and> clock (snd (get_presentation s ppt_id requester)) = clock s"
  by (simp add: get_presentation_def except_return_snd get_presentation_body_def document_get_eq
      split: option.splits)

lemma get_user_presentations_docs:
  "docs (snd (get_user_presentations s user_id limit)) = docs s
     \<and> clock (snd (get_user_presentations s user_id limit)) = clock s"
  by (simp add: get_user_presentations_def except_return_snd get_user_presentations_body_def
      query_stream_eq)

lemma reachable_stamps_in_past: "reachable s \<Longrightarrow> stamps_in_past s"
proof (induction rule: reachable.induct)
  case (initial s)
  then show ?case by (simp add: stamps_in_past_def)
next
  case (scheduled s fs)
  then show ?case by (simp add: stamps_in_past_def)
next
  case (verified s id_token)
  then show ?case using verify_token_docs [of s id_token] by (auto intro: stamps_in_past_same)
next
  case (looked_up s u)
  then show ?case using get_user_docs [of s u] by (auto intro: stamps_in_past_same)
next
  case (minted s u)
  then show ?case using create_custom_token_docs [of s u] by (auto intro: stamps_in_past_same)
next
  case (uploaded s image_path destination_path)
  then show ?case using upload_image_docs [of s image_path destination_path]
    by (auto intro: stamps_in_past_same)
next
  case (uploaded_bytes s image_bytes destination_path ctype)
  then show ?case using upload_image_from_bytes_docs [of s image_bytes destination_path ctype]
    by (auto intro: stamps_in_past_same)
next
  case (image_deleted s storage_path)
  then show ?case using delete_image_snd [of s storage_path] by (auto intro: stamps_in_past_same)
next
  case (created s user_id presentation_data)
  then show ?case by (simp add: create_presentation_keeps_stamps)
next
  case (fetched s ppt_id requester)
  then show ?case using get_presentation_docs [of s ppt_id requester]
    by (auto intro: stamps_in_past_same)
next
  case (updated s ppt_id user_id updates)
  then show ?case by (simp add: update_presentation_keeps_stamps)
next
  case (deleted s ppt_id user_id)
  then show ?case by (simp add: delete_presentation_keeps_stamps)
next
  case (listed s user_id limit)
  then show ?case using get_user_presentations_docs [of s user_id limit]
    by (auto intro: stamps_in_past_same)
qed

end
